theory Spec2Isabelle
  imports Main "HOL-Library.Word"
begin

unbundle bit_operations_syntax

section \<open>Machine types\<close>

text \<open>
  The C sources work on \<open>uint64_t\<close>, \<open>uint32_t\<close> and \<open>int\<close>. They are modelled as
  words of the same width, so that \<open>+\<close> and \<open>-\<close> wrap around as they do in C.
  A fixed-size C array (\<open>uint64_t s[4]\<close>) is a function from the index to the cell,
  updated with \<open>s(i := v)\<close>; the code only ever indexes it with indices in range.
\<close>

type_synonym u64 = "64 word"
type_synonym u32 = "32 word"
type_synonym c_int = "32 word"

section \<open>The state shared by the GJrand and JSF64 engines\<close>

text \<open>
  \<open>gjrand.h\<close> and \<open>jsf64.h\<close> declare the same struct under two names
  (\<open>s_gjrand_state\<close>, \<open>s_jsf64_state\<close>): four 64-bit words, the flag
  \<open>has_uint32\<close> and the cached half-word \<open>uinteger\<close>.
\<close>

record rng_state =
  s :: "nat \<Rightarrow> u64"
  has_uint32 :: c_int
  uinteger :: u32

type_synonym gjrand_state = rng_state
type_synonym jsf64_state = rng_state

text \<open>
  \<open>rotl\<close> of both headers (the branch that is not \<open>_WIN32\<close>):
  \<open>(value << rot) | (value >> ((-rot) & 63))\<close>, with \<open>rot\<close> an \<open>unsigned int\<close>.
\<close>

definition rotl :: "u64 \<Rightarrow> u32 \<Rightarrow> u64" where
  "rotl v rot = push_bit (unat rot) v OR drop_bit (unat ((- rot) AND 63)) v"

subsection \<open>GJrand: \<open>gjrand.h\<close>, \<open>gjrand.c\<close>\<close>

definition gjrand_next :: "(nat \<Rightarrow> u64) \<Rightarrow> u64 \<times> (nat \<Rightarrow> u64)" where
  "gjrand_next s0 =
    (let s = s0(1 := s0 1 + s0 2);
         s = s(0 := rotl (s 0) 32);
         s = s(2 := s 2 XOR s 1);
         s = s(3 := s 3 + 0x55aa96a5);
         s = s(0 := s 0 + s 1);
         s = s(2 := rotl (s 2) 23);
         s = s(1 := s 1 XOR s 0);
         s = s(0 := s 0 + s 2);
         s = s(1 := rotl (s 1) 19);
         s = s(2 := s 2 + s 0);
         s = s(1 := s 1 + s 3)
     in (s 0, s))"

definition gjrand_next64 :: "gjrand_state \<Rightarrow> u64 \<times> gjrand_state" where
  "gjrand_next64 st = (case gjrand_next (s st) of (r, s') \<Rightarrow> (r, st\<lparr>s := s'\<rparr>))"

definition gjrand_next32 :: "gjrand_state \<Rightarrow> u32 \<times> gjrand_state" where
  "gjrand_next32 st =
    (if has_uint32 st \<noteq> 0 then (uinteger st, st\<lparr>has_uint32 := 0\<rparr>)
     else case gjrand_next (s st) of (next, s') \<Rightarrow>
       (ucast (next AND 0xffffffff),
        st\<lparr>s := s', has_uint32 := 1, uinteger := ucast (drop_bit 32 next)\<rparr>))"

text \<open>The warm-up loop \<open>for (i=0; i<14; i++) (void)gjrand_next(state->s)\<close>.\<close>

function gjrand_seed_loop :: "nat \<Rightarrow> (nat \<Rightarrow> u64) \<Rightarrow> (nat \<Rightarrow> u64)" where
  "gjrand_seed_loop i s0 = (if i < 14 then gjrand_seed_loop (i + 1) (snd (gjrand_next s0)) else s0)"
  by pat_completeness auto
termination
  by (relation "measure (\<lambda>(i, s0). 14 - i)") auto

declare gjrand_seed_loop.simps [simp del]

definition gjrand_set_seed :: "gjrand_state \<Rightarrow> (nat \<Rightarrow> u64) \<Rightarrow> gjrand_state" where
  "gjrand_set_seed st seed =
    (let s0 = (s st)(0 := seed 0);
         s0 = s0(1 := seed 1);
         s0 = s0(2 := 2000001);
         s0 = s0(3 := 0)
     in st\<lparr>s := gjrand_seed_loop 0 s0\<rparr>)"

text \<open>
  \<open>gjrand_get_state\<close> writes through three out-parameters; the model returns the array it
  was given with cells 0 to 3 overwritten, and the two scalars.
\<close>

definition gjrand_get_state :: "gjrand_state \<Rightarrow> (nat \<Rightarrow> u64) \<Rightarrow> (nat \<Rightarrow> u64) \<times> c_int \<times> u32" where
  "gjrand_get_state st state_arr =
    (fold (\<lambda>i arr. arr(i := s st i)) [0..<4] state_arr, has_uint32 st, uinteger st)"

definition gjrand_set_state :: "gjrand_state \<Rightarrow> (nat \<Rightarrow> u64) \<Rightarrow> c_int \<Rightarrow> u32 \<Rightarrow> gjrand_state" where
  "gjrand_set_state st state_arr h u =
    st\<lparr>s := fold (\<lambda>i a. a(i := state_arr i)) [0..<4] (s st), has_uint32 := h, uinteger := u\<rparr>"

subsection \<open>JSF64: \<open>jsf64.h\<close>, \<open>jsf64.c\<close>\<close>

definition jsf64_next :: "(nat \<Rightarrow> u64) \<Rightarrow> u64 \<times> (nat \<Rightarrow> u64)" where
  "jsf64_next s0 =
    (let e = s0 0 - rotl (s0 1) 7;
         s = s0(0 := s0 1 XOR rotl (s0 2) 13);
         s = s(1 := s 2 + rotl (s 3) 37);
         s = s(2 := s 3 + e);
         s = s(3 := e + s 0)
     in (s 3, s))"

definition jsf64_next64 :: "jsf64_state \<Rightarrow> u64 \<times> jsf64_state" where
  "jsf64_next64 st = (case jsf64_next (s st) of (r, s') \<Rightarrow> (r, st\<lparr>s := s'\<rparr>))"

definition jsf64_next32 :: "jsf64_state \<Rightarrow> u32 \<times> jsf64_state" where
  "jsf64_next32 st =
    (if has_uint32 st \<noteq> 0 then (uinteger st, st\<lparr>has_uint32 := 0\<rparr>)
     else case jsf64_next (s st) of (next, s') \<Rightarrow>
       (ucast (next AND 0xffffffff),
        st\<lparr>s := s', has_uint32 := 1, uinteger := ucast (drop_bit 32 next)\<rparr>))"

text \<open>The warm-up loop \<open>for (i=0; i<20; i++) (void)jsf64_next(state->s)\<close>.\<close>

function jsf64_seed_loop :: "nat \<Rightarrow> (nat \<Rightarrow> u64) \<Rightarrow> (nat \<Rightarrow> u64)" where
  "jsf64_seed_loop i s0 = (if i < 20 then jsf64_seed_loop (i + 1) (snd (jsf64_next s0)) else s0)"
  by pat_completeness auto
termination
  by (relation "measure (\<lambda>(i, s0). 20 - i)") auto

declare jsf64_seed_loop.simps [simp del]

definition jsf64_set_seed :: "jsf64_state \<Rightarrow> (nat \<Rightarrow> u64) \<Rightarrow> jsf64_state" where
  "jsf64_set_seed st seed =
    (let s0 = (s st)(0 := 0xf1ea5eed);
         s0 = s0(1 := seed 0);
         s0 = s0(2 := seed 1);
         s0 = s0(3 := seed 2)
     in st\<lparr>s := jsf64_seed_loop 0 s0\<rparr>)"

definition jsf64_get_state :: "jsf64_state \<Rightarrow> (nat \<Rightarrow> u64) \<Rightarrow> (nat \<Rightarrow> u64) \<times> c_int \<times> u32" where
  "jsf64_get_state st state_arr =
    (fold (\<lambda>i arr. arr(i := s st i)) [0..<4] state_arr, has_uint32 st, uinteger st)"

definition jsf64_set_state :: "jsf64_state \<Rightarrow> (nat \<Rightarrow> u64) \<Rightarrow> c_int \<Rightarrow> u32 \<Rightarrow> jsf64_state" where
  "jsf64_set_state st state_arr h u =
    st\<lparr>s := fold (\<lambda>i a. a(i := state_arr i)) [0..<4] (s st), has_uint32 := h, uinteger := u\<rparr>"

section \<open>The generator facade: \<open>common.h\<close>\<close>

text \<open>
  A C \<open>double\<close> is kept as its IEEE-754 bit pattern: the sources modelled here store and
  copy doubles and never compute with them.
\<close>

datatype double = Double u64

text \<open>
  \<open>bitgen_t\<close>: four function slots over the engine's state. The \<open>void *state\<close> slot is
  the state the functions are applied to; each function returns its result and the state
  it leaves behind.
\<close>

record 'st bitgen =
  next_uint64 :: "'st \<Rightarrow> u64 \<times> 'st"
  next_uint32 :: "'st \<Rightarrow> u32 \<times> 'st"
  next_double :: "'st \<Rightarrow> double \<times> 'st"
  next_raw :: "'st \<Rightarrow> u64 \<times> 'st"

section \<open>\<open>gjrand.pyx\<close>: the GJrand and JSF64 classes\<close>

text \<open>
  \<open>uint64_to_double\<close> comes from NumPy's \<open>common\<close> module and is floating-point code; the
  model takes it as a parameter.
\<close>

definition gjrand_uint64 :: "gjrand_state \<Rightarrow> u64 \<times> gjrand_state" where
  "gjrand_uint64 st = gjrand_next64 st"

definition gjrand_uint32 :: "gjrand_state \<Rightarrow> u32 \<times> gjrand_state" where
  "gjrand_uint32 st = gjrand_next32 st"

definition gjrand_double :: "(u64 \<Rightarrow> double) \<Rightarrow> gjrand_state \<Rightarrow> double \<times> gjrand_state" where
  "gjrand_double uint64_to_double st =
    (case gjrand_next64 st of (r, st') \<Rightarrow> (uint64_to_double r, st'))"

definition GJrand_bitgen :: "(u64 \<Rightarrow> double) \<Rightarrow> gjrand_state bitgen" where
  "GJrand_bitgen uint64_to_double =
    \<lparr>next_uint64 = gjrand_uint64, next_uint32 = gjrand_uint32,
     next_double = gjrand_double uint64_to_double, next_raw = gjrand_uint64\<rparr>"

definition GJrand_reset_state_variables :: "gjrand_state \<Rightarrow> gjrand_state" where
  "GJrand_reset_state_variables self = self\<lparr>has_uint32 := 0, uinteger := 0\<rparr>"

text \<open>
  \<open>GJrand.__init__\<close>: \<open>self\<close> is the \<open>rng_state\<close> of the object being initialised and
  \<open>val\<close> the two words that \<open>generate_state(2, np.uint64)\<close> returned.
\<close>

definition GJrand_init :: "gjrand_state \<Rightarrow> (nat \<Rightarrow> u64) \<Rightarrow> gjrand_state" where
  "GJrand_init self val = GJrand_reset_state_variables (gjrand_set_seed self val)"

definition jsf64_uint64 :: "jsf64_state \<Rightarrow> u64 \<times> jsf64_state" where
  "jsf64_uint64 st = jsf64_next64 st"

definition jsf64_uint32 :: "jsf64_state \<Rightarrow> u32 \<times> jsf64_state" where
  "jsf64_uint32 st = jsf64_next32 st"

definition jsf64_double :: "(u64 \<Rightarrow> double) \<Rightarrow> jsf64_state \<Rightarrow> double \<times> jsf64_state" where
  "jsf64_double uint64_to_double st =
    (case jsf64_next64 st of (r, st') \<Rightarrow> (uint64_to_double r, st'))"

definition JSF64_bitgen :: "(u64 \<Rightarrow> double) \<Rightarrow> jsf64_state bitgen" where
  "JSF64_bitgen uint64_to_double =
    \<lparr>next_uint64 = jsf64_uint64, next_uint32 = jsf64_uint32,
     next_double = jsf64_double uint64_to_double, next_raw = jsf64_uint64\<rparr>"

definition JSF64_reset_state_variables :: "jsf64_state \<Rightarrow> jsf64_state" where
  "JSF64_reset_state_variables self = self\<lparr>has_uint32 := 0, uinteger := 0\<rparr>"

text \<open>\<open>JSF64.__init__\<close>, with the three words of \<open>generate_state(3, np.uint64)\<close>.\<close>

definition JSF64_init :: "jsf64_state \<Rightarrow> (nat \<Rightarrow> u64) \<Rightarrow> jsf64_state" where
  "JSF64_init self val = JSF64_reset_state_variables (jsf64_set_seed self val)"

section \<open>Python values and exceptions\<close>

text \<open>
  The state setters receive an arbitrary Python object. The model covers the objects the
  getters produce and the ways they can be wrong: integers, strings, one-dimensional
  \<open>uint64\<close> and \<open>float64\<close> arrays, and dictionaries with string keys (an association list;
  \<open>map_of\<close> looks a key up). An exception is a value of \<open>py_error\<close>.

  The conversions below are exact where a cell has the kind the setter expects: an integer
  is range-checked (\<open>OverflowError\<close>), a missing key is \<open>KeyError\<close>, an index past the
  end is \<open>IndexError\<close>. Numeric coercion between floats and integers is floating-point
  behaviour and is not modelled: a float cell where an integer is expected, or an integer
  cell where a float is expected, is reported as \<open>TypeError\<close>.
\<close>

datatype py_error = TypeError | ValueError | KeyError | IndexError | OverflowError

datatype py_value =
    PyInt int
  | PyStr string
  | PyArrU64 "u64 list"
  | PyArrF64 "double list"
  | PyDict "(string \<times> py_value) list"

text \<open>\<open>isinstance(value, dict)\<close>.\<close>

definition isinstance_dict :: "py_value \<Rightarrow> bool" where
  "isinstance_dict v = (case v of PyDict kvs \<Rightarrow> True | _ \<Rightarrow> False)"

text \<open>\<open>value.get(k, d)\<close>, called on a dictionary only.\<close>

definition dict_get :: "py_value \<Rightarrow> string \<Rightarrow> py_value \<Rightarrow> py_value" where
  "dict_get v k d =
    (case v of PyDict kvs \<Rightarrow> (case map_of kvs k of Some x \<Rightarrow> x | None \<Rightarrow> d) | _ \<Rightarrow> d)"

text \<open>\<open>v[k]\<close> with a string key.\<close>

definition getitem :: "py_value \<Rightarrow> string \<Rightarrow> py_error + py_value" where
  "getitem v k =
    (case v of
       PyDict kvs \<Rightarrow> (case map_of kvs k of Some x \<Rightarrow> Inr x | None \<Rightarrow> Inl KeyError)
     | PyArrU64 xs \<Rightarrow> Inl IndexError
     | PyArrF64 xs \<Rightarrow> Inl IndexError
     | _ \<Rightarrow> Inl TypeError)"

text \<open>Assignment of a Python object to a C \<open>uint64_t\<close>, \<open>uint32_t\<close> or \<open>int\<close>.\<close>

definition as_uint64 :: "py_value \<Rightarrow> py_error + u64" where
  "as_uint64 v =
    (case v of
       PyInt n \<Rightarrow> (if 0 \<le> n \<and> n < 2 ^ 64 then Inr (word_of_int n) else Inl OverflowError)
     | _ \<Rightarrow> Inl TypeError)"

definition as_uint32 :: "py_value \<Rightarrow> py_error + u32" where
  "as_uint32 v =
    (case v of
       PyInt n \<Rightarrow> (if 0 \<le> n \<and> n < 2 ^ 32 then Inr (word_of_int n) else Inl OverflowError)
     | _ \<Rightarrow> Inl TypeError)"

definition as_int :: "py_value \<Rightarrow> py_error + c_int" where
  "as_int v =
    (case v of
       PyInt n \<Rightarrow> (if - (2 ^ 31) \<le> n \<and> n < 2 ^ 31 then Inr (word_of_int n) else Inl OverflowError)
     | _ \<Rightarrow> Inl TypeError)"

text \<open>\<open>v[i]\<close> assigned to a C \<open>uint64_t\<close>, and to a C \<open>double\<close>.\<close>

definition getitem_uint64 :: "py_value \<Rightarrow> nat \<Rightarrow> py_error + u64" where
  "getitem_uint64 v i =
    (case v of
       PyArrU64 xs \<Rightarrow> (if i < length xs then Inr (xs ! i) else Inl IndexError)
     | PyArrF64 xs \<Rightarrow> (if i < length xs then Inl TypeError else Inl IndexError)
     | PyStr cs \<Rightarrow> (if i < length cs then Inl TypeError else Inl IndexError)
     | PyDict kvs \<Rightarrow> Inl KeyError
     | PyInt n \<Rightarrow> Inl TypeError)"

definition getitem_double :: "py_value \<Rightarrow> nat \<Rightarrow> py_error + double" where
  "getitem_double v i =
    (case v of
       PyArrF64 xs \<Rightarrow> (if i < length xs then Inr (xs ! i) else Inl IndexError)
     | PyArrU64 xs \<Rightarrow> (if i < length xs then Inl TypeError else Inl IndexError)
     | PyStr cs \<Rightarrow> (if i < length cs then Inl TypeError else Inl IndexError)
     | PyDict kvs \<Rightarrow> Inl KeyError
     | PyInt n \<Rightarrow> Inl TypeError)"

text \<open>
  \<open>state_vec = np.empty(4, dtype=np.uint64); state_vec[:] = v\<close>: NumPy copies an array of
  length 4, broadcasts an array of length 1 or an integer, and raises \<open>ValueError\<close> for any
  other length. \<open>np.empty\<close> leaves the cells uninitialised (here 0); cells 0 to 3 are
  overwritten before they are read.
\<close>

definition np_empty :: "nat \<Rightarrow> u64" where
  "np_empty = (\<lambda>i. 0)"

definition np_assign4 :: "py_value \<Rightarrow> py_error + (nat \<Rightarrow> u64)" where
  "np_assign4 v =
    (case v of
       PyArrU64 xs \<Rightarrow>
         (if length xs = 4 then Inr (\<lambda>i. if i < 4 then xs ! i else np_empty i)
          else if length xs = 1 then Inr (\<lambda>i. if i < 4 then xs ! 0 else np_empty i)
          else Inl ValueError)
     | PyInt n \<Rightarrow>
         (if 0 \<le> n \<and> n < 2 ^ 64 then Inr (\<lambda>i. if i < 4 then word_of_int n else np_empty i)
          else Inl OverflowError)
     | PyArrF64 xs \<Rightarrow> Inl TypeError
     | PyStr cs \<Rightarrow> Inl ValueError
     | PyDict kvs \<Rightarrow> Inl TypeError)"

text \<open>Sequencing of two steps that may raise.\<close>

definition bind_err :: "py_error + 'a \<Rightarrow> ('a \<Rightarrow> py_error + 'b) \<Rightarrow> py_error + 'b" where
  "bind_err m f = (case m of Inl e \<Rightarrow> Inl e | Inr x \<Rightarrow> f x)"

section \<open>\<open>gjrand.pyx\<close>: the \<open>state\<close> property of GJrand and JSF64\<close>

text \<open>
  A setter returns the exception it raised, if any, and the engine state it leaves behind:
  an exception does not undo the assignments made before it.
\<close>

definition GJrand_state_get :: "gjrand_state \<Rightarrow> py_value" where
  "GJrand_state_get self =
    (case gjrand_get_state self np_empty of (state_vec, h, u) \<Rightarrow>
       PyDict [(''bit_generator'', PyStr ''GJrand''),
               (''state'', PyDict [(''state'', PyArrU64 (map state_vec [0..<4]))]),
               (''has_uint32'', PyInt (sint h)),
               (''uinteger'', PyInt (uint u))])"

definition GJrand_state_set :: "gjrand_state \<Rightarrow> py_value \<Rightarrow> py_error option \<times> gjrand_state" where
  "GJrand_state_set self v =
    (if \<not> isinstance_dict v then (Some TypeError, self)
     else if dict_get v ''bit_generator'' (PyStr []) \<noteq> PyStr ''GJrand'' then (Some ValueError, self)
     else case bind_err (getitem v ''state'') (\<lambda>d. bind_err (getitem d ''state'') np_assign4) of
       Inl e \<Rightarrow> (Some e, self)
     | Inr state_vec \<Rightarrow>
     (case bind_err (getitem v ''has_uint32'') as_int of
       Inl e \<Rightarrow> (Some e, self)
     | Inr h \<Rightarrow>
     (case bind_err (getitem v ''uinteger'') as_uint32 of
       Inl e \<Rightarrow> (Some e, self)
     | Inr u \<Rightarrow> (None, gjrand_set_state self state_vec h u))))"

definition JSF64_state_get :: "jsf64_state \<Rightarrow> py_value" where
  "JSF64_state_get self =
    (case jsf64_get_state self np_empty of (state_vec, h, u) \<Rightarrow>
       PyDict [(''bit_generator'', PyStr ''JSF64''),
               (''state'', PyDict [(''state'', PyArrU64 (map state_vec [0..<4]))]),
               (''has_uint32'', PyInt (sint h)),
               (''uinteger'', PyInt (uint u))])"

definition JSF64_state_set :: "jsf64_state \<Rightarrow> py_value \<Rightarrow> py_error option \<times> jsf64_state" where
  "JSF64_state_set self v =
    (if \<not> isinstance_dict v then (Some TypeError, self)
     else if dict_get v ''bit_generator'' (PyStr []) \<noteq> PyStr ''JSF64'' then (Some ValueError, self)
     else case bind_err (getitem v ''state'') (\<lambda>d. bind_err (getitem d ''state'') np_assign4) of
       Inl e \<Rightarrow> (Some e, self)
     | Inr state_vec \<Rightarrow>
     (case bind_err (getitem v ''has_uint32'') as_int of
       Inl e \<Rightarrow> (Some e, self)
     | Inr h \<Rightarrow>
     (case bind_err (getitem v ''uinteger'') as_uint32 of
       Inl e \<Rightarrow> (Some e, self)
     | Inr u \<Rightarrow> (None, jsf64_set_state self state_vec h u))))"

section \<open>\<open>pcg32.pyx\<close>: the PCG32 class\<close>

text \<open>
  \<open>pcg32_random_t\<close> is the struct \<open>pcg_state_setseq_64\<close>; \<open>pcg32_state\<close> holds a pointer to
  one, which the class points at its own \<open>pcg32_random_state\<close> once and for all, so the
  pointee is kept in place of the pointer.
\<close>

record pcg32_random_t =
  state :: u64
  inc :: u64

record pcg32_state =
  pcg_state :: pcg32_random_t

text \<open>
  The C functions that \<open>pcg32.pyx\<close> declares \<open>extern\<close> from \<open>src/pcg32/pcg32.h\<close>. The header
  is not among the sources, so the functions are parameters of the model.
\<close>

record pcg32_lib =
  pcg32_next64 :: "pcg32_state \<Rightarrow> u64 \<times> pcg32_state"
  pcg32_next32 :: "pcg32_state \<Rightarrow> u32 \<times> pcg32_state"
  pcg32_next_double :: "pcg32_state \<Rightarrow> double \<times> pcg32_state"
  pcg32_advance_state :: "pcg32_state \<Rightarrow> u64 \<Rightarrow> pcg32_state"
  pcg32_set_seed :: "pcg32_state \<Rightarrow> u64 \<Rightarrow> u64 \<Rightarrow> pcg32_state"

definition pcg32_uint64 :: "pcg32_lib \<Rightarrow> pcg32_state \<Rightarrow> u64 \<times> pcg32_state" where
  "pcg32_uint64 lib st = pcg32_next64 lib st"

definition pcg32_uint32 :: "pcg32_lib \<Rightarrow> pcg32_state \<Rightarrow> u32 \<times> pcg32_state" where
  "pcg32_uint32 lib st = pcg32_next32 lib st"

definition pcg32_double :: "pcg32_lib \<Rightarrow> pcg32_state \<Rightarrow> double \<times> pcg32_state" where
  "pcg32_double lib st = pcg32_next_double lib st"

text \<open>\<open>return <uint64_t>pcg32_next32(st)\<close>: the cast zero-extends.\<close>

definition pcg32_raw :: "pcg32_lib \<Rightarrow> pcg32_state \<Rightarrow> u64 \<times> pcg32_state" where
  "pcg32_raw lib st = (case pcg32_next32 lib st of (r, st') \<Rightarrow> (ucast r, st'))"

definition PCG32_bitgen :: "pcg32_lib \<Rightarrow> pcg32_state bitgen" where
  "PCG32_bitgen lib =
    \<lparr>next_uint64 = pcg32_uint64 lib, next_uint32 = pcg32_uint32 lib,
     next_double = pcg32_double lib, next_raw = pcg32_raw lib\<rparr>"

text \<open>\<open>PCG32.__init__\<close>, with the two words of \<open>generate_state(2, np.uint64)\<close>.\<close>

definition PCG32_init :: "pcg32_lib \<Rightarrow> pcg32_state \<Rightarrow> (nat \<Rightarrow> u64) \<Rightarrow> pcg32_state" where
  "PCG32_init lib self val = pcg32_set_seed lib self (val 0) (val 1)"

definition PCG32_state_get :: "pcg32_state \<Rightarrow> py_value" where
  "PCG32_state_get self =
    PyDict [(''bit_generator'', PyStr ''PCG32''),
            (''state'', PyDict [(''state'', PyInt (uint (state (pcg_state self)))),
                                (''inc'', PyInt (uint (inc (pcg_state self))))])]"

definition PCG32_state_set :: "pcg32_state \<Rightarrow> py_value \<Rightarrow> py_error option \<times> pcg32_state" where
  "PCG32_state_set self v =
    (if \<not> isinstance_dict v then (Some TypeError, self)
     else if dict_get v ''bit_generator'' (PyStr []) \<noteq> PyStr ''PCG32'' then (Some ValueError, self)
     else case bind_err (getitem v ''state'') (\<lambda>d. bind_err (getitem d ''state'') as_uint64) of
       Inl e \<Rightarrow> (Some e, self)
     | Inr x \<Rightarrow>
     (let self1 = self\<lparr>pcg_state := (pcg_state self)\<lparr>state := x\<rparr>\<rparr> in
      case bind_err (getitem v ''state'') (\<lambda>d. bind_err (getitem d ''inc'') as_uint64) of
       Inl e \<Rightarrow> (Some e, self1)
     | Inr y \<Rightarrow> (None, self1\<lparr>pcg_state := (pcg_state self1)\<lparr>inc := y\<rparr>\<rparr>)))"

text \<open>
  Modelled from the spec: \<open>wrap_int\<close> is imported from the package's \<open>common\<close> module, which
  is not among the sources. The spec says of \<open>advance\<close> that the step count is "reduced
  modulo 2^64"; \<open>wrap_int(delta, 64)\<close> is that reduction, into the interval from 0 to
  \<open>2^64 - 1\<close>.
\<close>

definition wrap_int :: "int \<Rightarrow> nat \<Rightarrow> int" where
  "wrap_int val bits = val mod 2 ^ bits"

definition PCG32_advance :: "pcg32_lib \<Rightarrow> pcg32_state \<Rightarrow> int \<Rightarrow> pcg32_state" where
  "PCG32_advance lib self delta =
    (let delta = wrap_int delta 64 in pcg32_advance_state lib self (word_of_int delta))"

definition PCG32_jump_inplace :: "pcg32_lib \<Rightarrow> pcg32_state \<Rightarrow> int \<Rightarrow> pcg32_state" where
  "PCG32_jump_inplace lib self jumps =
    (let step = 0x9e3779b97f4a7c16 in PCG32_advance lib self (step * jumps))"

text \<open>
  \<open>PCG32.jumped\<close>. \<open>fresh\<close> is the state of the engine that \<open>self.__class__()\<close> has just
  constructed from new entropy. The result is the state of \<open>self\<close> after the call, and
  either the exception raised or the new engine.
\<close>

definition PCG32_jumped ::
  "pcg32_lib \<Rightarrow> pcg32_state \<Rightarrow> pcg32_state \<Rightarrow> int \<Rightarrow> pcg32_state \<times> (py_error + pcg32_state)" where
  "PCG32_jumped lib fresh self jumps =
    (case PCG32_state_set fresh (PCG32_state_get self) of
       (Some e, bit_generator) \<Rightarrow> (self, Inl e)
     | (None, bit_generator) \<Rightarrow> (self, Inr (PCG32_jump_inplace lib bit_generator jumps)))"

section \<open>\<open>dsfmt.pyx\<close>: the DSFMT class\<close>

definition DSFMT_N :: nat where
  "DSFMT_N = 191"

definition DSFMT_N_PLUS_1 :: nat where
  "DSFMT_N_PLUS_1 = 192"

definition DSFMT_N64 :: nat where
  "DSFMT_N64 = DSFMT_N * 2"

text \<open>
  \<open>dsfmt_t\<close>: \<open>status i j\<close> is \<open>status[i].u[j]\<close>, the only view of the union \<open>w128_t\<close> that the
  class uses. \<open>s_dsfmt_state\<close>: the pointers \<open>state\<close> and \<open>buffered_uniforms\<close> are set once
  in \<open>__init__\<close> to memory the object owns, so the pointees are kept in their place. Three
  fields carry the suffix \<open>_dsfmt\<close> because the names \<open>state\<close>, \<open>has_uint32\<close> and \<open>uinteger\<close>
  are taken by the structs above.
\<close>

record dsfmt_t =
  status :: "nat \<Rightarrow> nat \<Rightarrow> u64"
  idx :: c_int

record dsfmt_state =
  state_dsfmt :: dsfmt_t
  has_uint32_dsfmt :: c_int
  uinteger_dsfmt :: u32
  buffered_uniforms :: "nat \<Rightarrow> double"
  buffer_loc :: c_int

text \<open>
  The C functions that \<open>dsfmt.pyx\<close> declares \<open>extern\<close> from \<open>src/dsfmt/dSFMT.h\<close>, which is
  not among the sources: parameters of the model.
\<close>

record dsfmt_lib =
  dsfmt_next_double :: "dsfmt_state \<Rightarrow> double \<times> dsfmt_state"
  dsfmt_next64 :: "dsfmt_state \<Rightarrow> u64 \<times> dsfmt_state"
  dsfmt_next32 :: "dsfmt_state \<Rightarrow> u32 \<times> dsfmt_state"
  dsfmt_next_raw :: "dsfmt_state \<Rightarrow> u64 \<times> dsfmt_state"
  dsfmt_init_by_array :: "dsfmt_t \<Rightarrow> (nat \<Rightarrow> u32) \<Rightarrow> c_int \<Rightarrow> dsfmt_t"
  dsfmt_jump :: "dsfmt_state \<Rightarrow> dsfmt_state"

definition dsfmt_uint64 :: "dsfmt_lib \<Rightarrow> dsfmt_state \<Rightarrow> u64 \<times> dsfmt_state" where
  "dsfmt_uint64 lib st = dsfmt_next64 lib st"

definition dsfmt_uint32 :: "dsfmt_lib \<Rightarrow> dsfmt_state \<Rightarrow> u32 \<times> dsfmt_state" where
  "dsfmt_uint32 lib st = dsfmt_next32 lib st"

definition dsfmt_double :: "dsfmt_lib \<Rightarrow> dsfmt_state \<Rightarrow> double \<times> dsfmt_state" where
  "dsfmt_double lib st = dsfmt_next_double lib st"

definition dsfmt_raw :: "dsfmt_lib \<Rightarrow> dsfmt_state \<Rightarrow> u64 \<times> dsfmt_state" where
  "dsfmt_raw lib st = dsfmt_next_raw lib st"

definition DSFMT_bitgen :: "dsfmt_lib \<Rightarrow> dsfmt_state bitgen" where
  "DSFMT_bitgen lib =
    \<lparr>next_uint64 = dsfmt_uint64 lib, next_uint32 = dsfmt_uint32 lib,
     next_double = dsfmt_double lib, next_raw = dsfmt_raw lib\<rparr>"

definition DSFMT_reset_state_variables :: "dsfmt_state \<Rightarrow> dsfmt_state" where
  "DSFMT_reset_state_variables self = self\<lparr>buffer_loc := word_of_nat DSFMT_N64\<rparr>"

text \<open>
  \<open>DSFMT.__init__\<close>: the status block is allocated uninitialised (it keeps what
  \<open>self\<close> holds), the buffer is allocated zeroed, and \<open>val\<close> is the array of
  \<open>DSFMT_N * 4\<close> words that \<open>generate_state\<close> returned.
\<close>

definition DSFMT_init :: "dsfmt_lib \<Rightarrow> dsfmt_state \<Rightarrow> (nat \<Rightarrow> u32) \<Rightarrow> dsfmt_state" where
  "DSFMT_init lib self val =
    (let self = self\<lparr>buffered_uniforms := (\<lambda>i. Double 0)\<rparr>;
         self = self\<lparr>buffer_loc := word_of_nat DSFMT_N64\<rparr>;
         self = self\<lparr>state_dsfmt :=
                  dsfmt_init_by_array lib (state_dsfmt self) val (word_of_nat (DSFMT_N * 4))\<rparr>
     in DSFMT_reset_state_variables self)"

text \<open>The loop \<open>for i in range(iter): dsfmt_jump(&self.rng_state)\<close>, \<open>i\<close> an \<open>npy_intp\<close>.\<close>

function dsfmt_jump_loop :: "dsfmt_lib \<Rightarrow> int \<Rightarrow> int \<Rightarrow> dsfmt_state \<Rightarrow> dsfmt_state" where
  "dsfmt_jump_loop lib i iter self =
    (if i < iter then dsfmt_jump_loop lib (i + 1) iter (dsfmt_jump lib self) else self)"
  by pat_completeness auto
termination
  by (relation "measure (\<lambda>(lib, i, iter, self). nat (iter - i))") auto

declare dsfmt_jump_loop.simps [simp del]

definition DSFMT_jump_inplace :: "dsfmt_lib \<Rightarrow> dsfmt_state \<Rightarrow> int \<Rightarrow> dsfmt_state" where
  "DSFMT_jump_inplace lib self iter =
    DSFMT_reset_state_variables (dsfmt_jump_loop lib 0 iter self)"

text \<open>
  The getter fills \<open>state\<close> in the order of its nested loop (\<open>loc\<close> counts up through
  \<open>status[i].u[j]\<close>, \<open>j\<close> innermost) and copies the whole buffer.
\<close>

definition DSFMT_state_get :: "dsfmt_state \<Rightarrow> py_value" where
  "DSFMT_state_get self =
    PyDict [(''bit_generator'', PyStr ''DSFMT''),
            (''state'',
               PyDict [(''state'',
                          PyArrU64 (concat (map (\<lambda>i. map (\<lambda>j. status (state_dsfmt self) i j) [0..<2])
                                              [0..<DSFMT_N_PLUS_1]))),
                       (''idx'', PyInt (sint (idx (state_dsfmt self))))]),
            (''buffer_loc'', PyInt (sint (buffer_loc self))),
            (''buffered_uniforms'', PyArrF64 (map (buffered_uniforms self) [0..<DSFMT_N64]))]"

text \<open>
  The setter's loops, one function per \<open>for\<close>. Each takes the indices still to visit and
  stops at the first exception, with the cells written so far in place.
\<close>

definition set_status_u :: "nat \<Rightarrow> nat \<Rightarrow> u64 \<Rightarrow> dsfmt_state \<Rightarrow> dsfmt_state" where
  "set_status_u i j w self =
    self\<lparr>state_dsfmt := (state_dsfmt self)
      \<lparr>status := (status (state_dsfmt self))(i := (status (state_dsfmt self) i)(j := w))\<rparr>\<rparr>"

fun set_status_cols ::
  "py_value \<Rightarrow> nat \<Rightarrow> nat list \<Rightarrow> nat \<Rightarrow> dsfmt_state \<Rightarrow> py_error option \<times> nat \<times> dsfmt_state" where
  "set_status_cols st_arr i [] loc self = (None, loc, self)"
| "set_status_cols st_arr i (j # js) loc self =
    (case getitem_uint64 st_arr loc of
       Inl e \<Rightarrow> (Some e, loc, self)
     | Inr w \<Rightarrow> set_status_cols st_arr i js (loc + 1) (set_status_u i j w self))"

fun set_status_rows ::
  "py_value \<Rightarrow> nat list \<Rightarrow> nat \<Rightarrow> dsfmt_state \<Rightarrow> py_error option \<times> nat \<times> dsfmt_state" where
  "set_status_rows st_arr [] loc self = (None, loc, self)"
| "set_status_rows st_arr (i # is) loc self =
    (case set_status_cols st_arr i [0..<2] loc self of
       (Some e, loc', self') \<Rightarrow> (Some e, loc', self')
     | (None, loc', self') \<Rightarrow> set_status_rows st_arr is loc' self')"

fun set_buffered :: "py_value \<Rightarrow> nat list \<Rightarrow> dsfmt_state \<Rightarrow> py_error option \<times> dsfmt_state" where
  "set_buffered bu [] self = (None, self)"
| "set_buffered bu (i # is) self =
    (case getitem_double bu i of
       Inl e \<Rightarrow> (Some e, self)
     | Inr x \<Rightarrow> set_buffered bu is (self\<lparr>buffered_uniforms := (buffered_uniforms self)(i := x)\<rparr>))"

definition DSFMT_state_set :: "dsfmt_state \<Rightarrow> py_value \<Rightarrow> py_error option \<times> dsfmt_state" where
  "DSFMT_state_set self v =
    (if \<not> isinstance_dict v then (Some TypeError, self)
     else if dict_get v ''bit_generator'' (PyStr []) \<noteq> PyStr ''DSFMT'' then (Some ValueError, self)
     else case bind_err (getitem v ''state'') (\<lambda>d. getitem d ''state'') of
       Inl e \<Rightarrow> (Some e, self)
     | Inr st_arr \<Rightarrow>
     (case set_status_rows st_arr [0..<DSFMT_N_PLUS_1] 0 self of
       (Some e, loc, self1) \<Rightarrow> (Some e, self1)
     | (None, loc, self1) \<Rightarrow>
     (case bind_err (getitem v ''state'') (\<lambda>d. bind_err (getitem d ''idx'') as_int) of
       Inl e \<Rightarrow> (Some e, self1)
     | Inr n \<Rightarrow>
     (let self2 = self1\<lparr>state_dsfmt := (state_dsfmt self1)\<lparr>idx := n\<rparr>\<rparr> in
      case getitem v ''buffered_uniforms'' of
       Inl e \<Rightarrow> (Some e, self2)
     | Inr bu \<Rightarrow>
     (case set_buffered bu [0..<DSFMT_N64] self2 of
       (Some e, self3) \<Rightarrow> (Some e, self3)
     | (None, self3) \<Rightarrow>
     (case bind_err (getitem v ''buffer_loc'') as_int of
       Inl e \<Rightarrow> (Some e, self3)
     | Inr b \<Rightarrow> (None, self3\<lparr>buffer_loc := b\<rparr>)))))))"

text \<open>
  \<open>np.npy_intp jumps\<close> in the signature of \<open>DSFMT.jumped\<close>: the argument, a Python integer,
  is converted to a signed 64-bit integer when the method is entered, and
  \<open>OverflowError\<close> is raised outside that range.
\<close>

definition as_npy_intp :: "int \<Rightarrow> py_error + int" where
  "as_npy_intp n = (if - (2 ^ 63) \<le> n \<and> n < 2 ^ 63 then Inr n else Inl OverflowError)"

text \<open>
  \<open>DSFMT.jumped\<close>, with \<open>fresh\<close> the state of the engine that \<open>self.__class__()\<close>
  constructs. The conversion of \<open>jumps\<close> comes first: when it raises, no engine has been
  constructed. The result is the state of \<open>self\<close> after the call, and either the exception
  raised or the new engine.
\<close>

definition DSFMT_jumped ::
  "dsfmt_lib \<Rightarrow> dsfmt_state \<Rightarrow> dsfmt_state \<Rightarrow> int \<Rightarrow> dsfmt_state \<times> (py_error + dsfmt_state)" where
  "DSFMT_jumped lib fresh self jumps =
    (case as_npy_intp jumps of
       Inl e \<Rightarrow> (self, Inl e)
     | Inr n \<Rightarrow>
     (case DSFMT_state_set fresh (DSFMT_state_get self) of
       (Some e, bit_generator) \<Rightarrow> (self, Inl e)
     | (None, bit_generator) \<Rightarrow> (self, Inr (DSFMT_jump_inplace lib bit_generator n))))"

text \<open>
  Modelled from the spec: the draw of one double through the cache is defined in
  \<open>dSFMT.h\<close>, which is not among the sources. The spec says that
  "\<open>buffer_loc == 382\<close> signals buffer empty, refill on next draw; refilling regenerates
  the whole 382-slot cache from the 192-word status array and resets \<open>buffer_loc\<close> to 0",
  and that a draw otherwise consumes from the cache. The regeneration (the recurrence over
  the status array) is the parameter \<open>fill\<close>.
\<close>

definition dsfmt_next_buffer ::
  "(dsfmt_t \<Rightarrow> (nat \<Rightarrow> double) \<times> dsfmt_t) \<Rightarrow> dsfmt_state \<Rightarrow> double \<times> dsfmt_state" where
  "dsfmt_next_buffer fill st0 =
    (let st = (if buffer_loc st0 = word_of_nat DSFMT_N64
               then (case fill (state_dsfmt st0) of (cache, d) \<Rightarrow>
                       st0\<lparr>state_dsfmt := d, buffered_uniforms := cache, buffer_loc := 0\<rparr>)
               else st0)
     in (buffered_uniforms st (unat (buffer_loc st)), st\<lparr>buffer_loc := buffer_loc st + 1\<rparr>))"

text \<open>\<open>n\<close> draws through the cache, one after the other, with the doubles they return.\<close>

fun dsfmt_next_buffers ::
  "(dsfmt_t \<Rightarrow> (nat \<Rightarrow> double) \<times> dsfmt_t) \<Rightarrow> nat \<Rightarrow> dsfmt_state \<Rightarrow> double list \<times> dsfmt_state" where
  "dsfmt_next_buffers fill 0 st = ([], st)"
| "dsfmt_next_buffers fill (Suc n) st =
    (case dsfmt_next_buffer fill st of (x, st') \<Rightarrow>
       (case dsfmt_next_buffers fill n st' of (xs, st'') \<Rightarrow> (x # xs, st'')))"

section \<open>Drawing through the facade\<close>

text \<open>
  A consumer holds a \<open>bitgen_t\<close> and calls its four slots in any order. \<open>draws\<close> runs a
  list of such calls and collects what they return.
\<close>

datatype draw = Draw_uint32 | Draw_uint64 | Draw_double | Draw_raw

datatype drawn = Drawn_uint32 u32 | Drawn_uint64 u64 | Drawn_double double

definition draw1 :: "'st bitgen \<Rightarrow> draw \<Rightarrow> 'st \<Rightarrow> drawn \<times> 'st" where
  "draw1 g d st =
    (case d of
       Draw_uint32 \<Rightarrow> (case next_uint32 g st of (r, st') \<Rightarrow> (Drawn_uint32 r, st'))
     | Draw_uint64 \<Rightarrow> (case next_uint64 g st of (r, st') \<Rightarrow> (Drawn_uint64 r, st'))
     | Draw_double \<Rightarrow> (case next_double g st of (r, st') \<Rightarrow> (Drawn_double r, st'))
     | Draw_raw \<Rightarrow> (case next_raw g st of (r, st') \<Rightarrow> (Drawn_uint64 r, st')))"

fun draws :: "'st bitgen \<Rightarrow> draw list \<Rightarrow> 'st \<Rightarrow> drawn list \<times> 'st" where
  "draws g [] st = ([], st)"
| "draws g (d # ds) st =
    (case draw1 g d st of (r, st') \<Rightarrow> (case draws g ds st' of (rs, st'') \<Rightarrow> (r # rs, st'')))"

section \<open>Concrete inputs\<close>

text \<open>
  A zero-filled engine object, and the entropy words 1, 2, 3 (GJrand reads the first two,
  JSF64 all three).
\<close>

definition zero_state :: rng_state where
  "zero_state = \<lparr>s = (\<lambda>i. 0), has_uint32 = 0, uinteger = 0\<rparr>"

definition seed_123 :: "nat \<Rightarrow> u64" where
  "seed_123 i = (if i = 0 then 1 else if i = 1 then 2 else if i = 2 then 3 else 0)"

text \<open>
  A zero-filled DSFMT object with an empty cache, and two state dictionaries for it: one
  whose index is 1000, and one whose buffer has 381 cells where 382 are expected (and
  whose index is 5).
\<close>

definition dsfmt_zero :: dsfmt_state where
  "dsfmt_zero =
    \<lparr>state_dsfmt = \<lparr>status = (\<lambda>i j. 0), idx = 0\<rparr>,
     has_uint32_dsfmt = 0, uinteger_dsfmt = 0,
     buffered_uniforms = (\<lambda>i. Double 0), buffer_loc = 382\<rparr>"

text \<open>A DSFMT library to instantiate the parameter with: every function leaves the state alone.\<close>

definition dsfmt_lib_idle :: dsfmt_lib where
  "dsfmt_lib_idle =
    \<lparr>dsfmt_next_double = (\<lambda>st. (Double 0, st)), dsfmt_next64 = (\<lambda>st. (0, st)),
     dsfmt_next32 = (\<lambda>st. (0, st)), dsfmt_next_raw = (\<lambda>st. (0, st)),
     dsfmt_init_by_array = (\<lambda>d key len. d), dsfmt_jump = (\<lambda>st. st)\<rparr>"

definition blob_idx_1000 :: py_value where
  "blob_idx_1000 =
    PyDict [(''bit_generator'', PyStr ''DSFMT''),
            (''state'', PyDict [(''state'', PyArrU64 (replicate 384 0)), (''idx'', PyInt 1000)]),
            (''buffer_loc'', PyInt 382),
            (''buffered_uniforms'', PyArrF64 (replicate 382 (Double 0)))]"

definition blob_short_buffer :: py_value where
  "blob_short_buffer =
    PyDict [(''bit_generator'', PyStr ''DSFMT''),
            (''state'', PyDict [(''state'', PyArrU64 (replicate 384 0)), (''idx'', PyInt 5)]),
            (''buffer_loc'', PyInt 382),
            (''buffered_uniforms'', PyArrF64 (replicate 381 (Double 0)))]"

section \<open>Rotations and half-words\<close>

text \<open>For every amount strictly between 0 and 64, the C expression is a left rotation.\<close>

lemma rotl_word_rotl:
  fixes v :: u64
  assumes "0 < k" "k < 64"
  shows "push_bit k v OR drop_bit (64 - k) v = word_rotl k v"
proof (rule bit_word_eqI)
  fix n assume n: "n < LENGTH(64)"
  have nb: "\<not> bit v m" if "64 \<le> m" for m
    using that bit_imp_le_length [of v m] by auto
  show "bit (push_bit k v OR drop_bit (64 - k) v) n \<longleftrightarrow> bit (word_rotl k v) n"
  proof (cases "k \<le> n")
    case True
    then have m: "(n + (64 - k)) mod 64 = n - k" using assms n
      by (simp add: mod_if)
    show ?thesis using True n assms m
      by (simp add: bit_simps nb)
  next
    case False
    then have m: "(n + (64 - k)) mod 64 = n + (64 - k)" using assms n by simp
    have e: "64 + n - k = n + (64 - k)" using assms by simp
    show ?thesis using False n assms m
      by (simp add: bit_simps e)
  qed
qed

lemma rotl_32: "rotl v 32 = word_rotl 32 v"
  using rotl_word_rotl [of 32 v] by (simp add: rotl_def)
lemma rotl_23: "rotl v 23 = word_rotl 23 v"
  using rotl_word_rotl [of 23 v] by (simp add: rotl_def)
lemma rotl_19: "rotl v 19 = word_rotl 19 v"
  using rotl_word_rotl [of 19 v] by (simp add: rotl_def)
lemma rotl_7: "rotl v 7 = word_rotl 7 v"
  using rotl_word_rotl [of 7 v] by (simp add: rotl_def)
lemma rotl_13: "rotl v 13 = word_rotl 13 v"
  using rotl_word_rotl [of 13 v] by (simp add: rotl_def)
lemma rotl_37: "rotl v 37 = word_rotl 37 v"
  using rotl_word_rotl [of 37 v] by (simp add: rotl_def)

lemma mask32: "(0xffffffff :: u64) = mask 32"
  by (simp add: mask_eq_exp_minus_1)

lemma low_half: "unat (ucast (v AND 0xffffffff :: u64) :: u32) = unat v mod 2 ^ 32"
proof -
  have "(ucast (v AND mask 32) :: u32) = ucast v"
    by (rule bit_word_eqI) (simp add: bit_simps)
  then show ?thesis
    by (simp add: mask32 unsigned_ucast_eq take_bit_eq_mod)
qed

lemma high_half: "unat (ucast (drop_bit 32 (v :: u64)) :: u32) = unat v div 2 ^ 32"
proof -
  have "unat v < 2 ^ 64"
    using unsigned_less [of v] by simp
  then have "unat v div 2 ^ 32 < 2 ^ 32"
    by (simp add: less_mult_imp_div_less)
  moreover have "unat (drop_bit 32 v) = unat v div 2 ^ 32"
    using unat_drop_bit_eq [of 32 v] drop_bit_eq_div [of 32 "unat v"] by (rule trans)
  moreover have "unat (ucast (drop_bit 32 v) :: u32) = unat (drop_bit 32 v) mod 2 ^ 32"
    by (simp only: unsigned_ucast_eq take_bit_eq_mod len_bit0 len_num1 mult_1_right) simp
  ultimately show ?thesis
    by simp
qed

lemma gjrand_next_closed:
  "gjrand_next x =
    (let b = x 1 + x 2;
         a = word_rotl 32 (x 0) + b;
         c = word_rotl 23 (x 2 XOR b);
         d = x 3 + 0x55aa96a5;
         r = a + c
     in (r, x(0 := r, 1 := word_rotl 19 (b XOR a) + d, 2 := c + r, 3 := d)))"
  by (auto simp add: gjrand_next_def Let_def rotl_32 rotl_23 rotl_19 fun_eq_iff)

lemma jsf64_next_closed:
  "jsf64_next x =
    (let e = x 0 - word_rotl 7 (x 1);
         a = x 1 XOR word_rotl 13 (x 2);
         r = e + a
     in (r, x(0 := a, 1 := x 2 + word_rotl 37 (x 3), 2 := x 3 + e, 3 := r)))"
  by (auto simp add: jsf64_next_def Let_def rotl_7 rotl_13 rotl_37 fun_eq_iff)

lemma gjrand_seed_loop_funpow: "gjrand_seed_loop 0 a = ((\<lambda>x. snd (gjrand_next x)) ^^ 14) a"
  by (simp add: gjrand_seed_loop.simps eval_nat_numeral funpow_swap1)

lemma jsf64_seed_loop_funpow: "jsf64_seed_loop 0 a = ((\<lambda>x. snd (jsf64_next x)) ^^ 20) a"
  by (simp add: jsf64_seed_loop.simps eval_nat_numeral funpow_swap1)


section \<open>Seeding and transition of GJrand and JSF64\<close>

text \<open>
  Claim C6. \<open>gjrand_set_seed\<close> stores the first entropy word in \<open>s[0]\<close>, the second in
  \<open>s[1]\<close>, the constants 2000001 and 0 in \<open>s[2]\<close> and \<open>s[3]\<close>, and then applies the
  transition exactly 14 times, keeping only the state. One transition adds the odd constant
  \<open>0x55aa96a5\<close> to \<open>s[3]\<close>, rotates left by 32, 23 and 19, and returns the new
  \<open>s[0]\<close>.
\<close>

theorem gjrand_seeding:
  "gjrand_set_seed st seed =
     st\<lparr>s := ((\<lambda>x. snd (gjrand_next x)) ^^ 14)
                ((s st)(0 := seed 0, 1 := seed 1, 2 := 2000001, 3 := 0))\<rparr>
   \<and> gjrand_next x =
     (let b = x 1 + x 2;
          a = word_rotl 32 (x 0) + b;
          c = word_rotl 23 (x 2 XOR b);
          d = x 3 + 0x55aa96a5;
          r = a + c
      in (r, x(0 := r, 1 := word_rotl 19 (b XOR a) + d, 2 := c + r, 3 := d)))
   \<and> fst (gjrand_next x) = snd (gjrand_next x) 0
   \<and> odd (0x55aa96a5 :: u64)"
  by (simp add: gjrand_set_seed_def gjrand_seed_loop_funpow Let_def gjrand_next_closed)

text \<open>
  Claim C7. \<open>jsf64_set_seed\<close> stores the constant \<open>0xf1ea5eed\<close> in \<open>s[0]\<close> and the three
  entropy words in \<open>s[1]\<close>, \<open>s[2]\<close>, \<open>s[3]\<close>, and then applies the transition exactly
  20 times, keeping only the state. One transition rotates left by 7, 13 and 37 and
  returns the new \<open>s[3]\<close>.
\<close>

theorem jsf64_seeding:
  "jsf64_set_seed st seed =
     st\<lparr>s := ((\<lambda>x. snd (jsf64_next x)) ^^ 20)
                ((s st)(0 := 0xf1ea5eed, 1 := seed 0, 2 := seed 1, 3 := seed 2))\<rparr>
   \<and> jsf64_next x =
     (let e = x 0 - word_rotl 7 (x 1);
          a = x 1 XOR word_rotl 13 (x 2);
          r = e + a
      in (r, x(0 := a, 1 := x 2 + word_rotl 37 (x 3), 2 := x 3 + e, 3 := r))) 
   \<and> fst (jsf64_next x) = snd (jsf64_next x) 3"
  by (simp add: jsf64_set_seed_def jsf64_seed_loop_funpow Let_def jsf64_next_closed)

section \<open>The output splitter of GJrand and JSF64\<close>

text \<open>The two halves of a 64-bit value, as numbers.\<close>

lemma low_half_word: "(ucast (v AND 0xffffffff :: u64) :: u32) = word_of_nat (unat v mod 2 ^ 32)"
proof -
  have "(ucast (v AND 0xffffffff) :: u32) = word_of_nat (unat (ucast (v AND 0xffffffff) :: u32))"
    by simp
  then show ?thesis
    by (simp only: low_half)
qed

lemma high_half_word: "(ucast (drop_bit 32 (v :: u64)) :: u32) = word_of_nat (unat v div 2 ^ 32)"
proof -
  have "(ucast (drop_bit 32 v) :: u32) = word_of_nat (unat (ucast (drop_bit 32 v) :: u32))"
    by simp
  then show ?thesis
    by (simp only: high_half)
qed

text \<open>
  Claim C4. \<open>next32\<close> of GJrand and of JSF64: when a half-word is cached
  (\<open>has_uint32\<close> is not 0) it clears the flag and returns the cached half, leaving the four
  state words alone; otherwise it runs the 64-bit transition once, returns the low 32 bits
  of the value (the value modulo \<open>2^32\<close>), caches the high 32 bits (the value divided by
  \<open>2^32\<close>) and sets the flag to 1. So the flag flips at every call: consecutive calls
  alternate between the two branches, with at most one half-word outstanding.
\<close>

theorem next32_output_splitter:
  "gjrand_next32 st =
     (if has_uint32 st \<noteq> 0 then (uinteger st, st\<lparr>has_uint32 := 0\<rparr>)
      else case gjrand_next64 st of (v, st') \<Rightarrow>
        (word_of_nat (unat v mod 2 ^ 32),
         st'\<lparr>has_uint32 := 1, uinteger := word_of_nat (unat v div 2 ^ 32)\<rparr>))
   \<and> jsf64_next32 st =
     (if has_uint32 st \<noteq> 0 then (uinteger st, st\<lparr>has_uint32 := 0\<rparr>)
      else case jsf64_next64 st of (v, st') \<Rightarrow>
        (word_of_nat (unat v mod 2 ^ 32),
         st'\<lparr>has_uint32 := 1, uinteger := word_of_nat (unat v div 2 ^ 32)\<rparr>))
   \<and> (has_uint32 (snd (gjrand_next32 st)) = 0) = (has_uint32 st \<noteq> 0)
   \<and> (has_uint32 (snd (jsf64_next32 st)) = 0) = (has_uint32 st \<noteq> 0)"
proof -
  show ?thesis
    by (simp add: gjrand_next32_def gjrand_next64_def jsf64_next32_def jsf64_next64_def
        split_def low_half_word high_half_word)
qed

theorem next32_output_splitter_witness:
  "gjrand_next32 (zero_state\<lparr>has_uint32 := 1, uinteger := 7\<rparr>) = (7, zero_state\<lparr>has_uint32 := 0, uinteger := 7\<rparr>)
   \<and> has_uint32 (snd (jsf64_next32 zero_state)) = 1"
  using next32_output_splitter [of "zero_state\<lparr>has_uint32 := 1, uinteger := 7\<rparr>"]
     next32_output_splitter [of zero_state]
  by (simp add: zero_state_def split_def)

text \<open>
  Claim C10. \<open>next64\<close> of GJrand and of JSF64 (which is also their \<open>next_raw\<close>) leaves
  \<open>has_uint32\<close> and \<open>uinteger\<close> as they were, and its value and the state words it
  computes do not depend on them. So a half-word that is outstanding survives any number
  \<open>n\<close> of 64-bit draws: the next \<open>next32\<close> returns it, and it is the high half of the
  draw that cached it.
\<close>

theorem next64_leaves_cache:
  "has_uint32 (snd (gjrand_next64 st)) = has_uint32 st
   \<and> uinteger (snd (gjrand_next64 st)) = uinteger st
   \<and> fst (gjrand_next64 (st\<lparr>has_uint32 := h, uinteger := u\<rparr>)) = fst (gjrand_next64 st)
   \<and> s (snd (gjrand_next64 (st\<lparr>has_uint32 := h, uinteger := u\<rparr>))) = s (snd (gjrand_next64 st))
   \<and> has_uint32 (snd (jsf64_next64 st)) = has_uint32 st
   \<and> uinteger (snd (jsf64_next64 st)) = uinteger st
   \<and> fst (jsf64_next64 (st\<lparr>has_uint32 := h, uinteger := u\<rparr>)) = fst (jsf64_next64 st)
   \<and> s (snd (jsf64_next64 (st\<lparr>has_uint32 := h, uinteger := u\<rparr>))) = s (snd (jsf64_next64 st))
   \<and> next_raw (GJrand_bitgen d) = gjrand_next64
   \<and> next_raw (JSF64_bitgen d) = jsf64_next64
   \<and> (has_uint32 st \<noteq> 0 \<longrightarrow>
        fst (gjrand_next32 (((\<lambda>x. snd (gjrand_next64 x)) ^^ n) st)) = uinteger st
      \<and> fst (jsf64_next32 (((\<lambda>x. snd (jsf64_next64 x)) ^^ n) st)) = uinteger st)
   \<and> (has_uint32 st' = 0 \<longrightarrow>
        fst (gjrand_next32 (((\<lambda>x. snd (gjrand_next64 x)) ^^ n) (snd (gjrand_next32 st')))) =
          word_of_nat (unat (fst (gjrand_next64 st')) div 2 ^ 32)
      \<and> fst (jsf64_next32 (((\<lambda>x. snd (jsf64_next64 x)) ^^ n) (snd (jsf64_next32 st')))) =
          word_of_nat (unat (fst (jsf64_next64 st')) div 2 ^ 32))"
proof -
  have g: "has_uint32 (((\<lambda>x. snd (gjrand_next64 x)) ^^ n) st) = has_uint32 st
         \<and> uinteger (((\<lambda>x. snd (gjrand_next64 x)) ^^ n) st) = uinteger st" for st
    by (induction n) (simp_all add: gjrand_next64_def split_def)
  have j: "has_uint32 (((\<lambda>x. snd (jsf64_next64 x)) ^^ n) st) = has_uint32 st
         \<and> uinteger (((\<lambda>x. snd (jsf64_next64 x)) ^^ n) st) = uinteger st" for st
    by (induction n) (simp_all add: jsf64_next64_def split_def)
  have a: "fst (gjrand_next32 x) = uinteger x" if "has_uint32 x \<noteq> 0" for x
    using that by (simp add: gjrand_next32_def)
  have b: "fst (jsf64_next32 x) = uinteger x" if "has_uint32 x \<noteq> 0" for x
    using that by (simp add: jsf64_next32_def)
  have c: "has_uint32 (snd (gjrand_next32 x)) \<noteq> 0
      \<and> uinteger (snd (gjrand_next32 x)) = word_of_nat (unat (fst (gjrand_next64 x)) div 2 ^ 32)"
    if "has_uint32 x = 0" for x
    using that by (simp add: gjrand_next32_def gjrand_next64_def split_def high_half_word)
  have e: "has_uint32 (snd (jsf64_next32 x)) \<noteq> 0
      \<and> uinteger (snd (jsf64_next32 x)) = word_of_nat (unat (fst (jsf64_next64 x)) div 2 ^ 32)"
    if "has_uint32 x = 0" for x
    using that by (simp add: jsf64_next32_def jsf64_next64_def split_def high_half_word)
  have frame: "has_uint32 (snd (gjrand_next64 st)) = has_uint32 st
   \<and> uinteger (snd (gjrand_next64 st)) = uinteger st
   \<and> fst (gjrand_next64 (st\<lparr>has_uint32 := h, uinteger := u\<rparr>)) = fst (gjrand_next64 st)
   \<and> s (snd (gjrand_next64 (st\<lparr>has_uint32 := h, uinteger := u\<rparr>))) = s (snd (gjrand_next64 st))
   \<and> has_uint32 (snd (jsf64_next64 st)) = has_uint32 st
   \<and> uinteger (snd (jsf64_next64 st)) = uinteger st
   \<and> fst (jsf64_next64 (st\<lparr>has_uint32 := h, uinteger := u\<rparr>)) = fst (jsf64_next64 st)
   \<and> s (snd (jsf64_next64 (st\<lparr>has_uint32 := h, uinteger := u\<rparr>))) = s (snd (jsf64_next64 st))"
    by (simp add: gjrand_next64_def jsf64_next64_def split_def)
  have raw: "next_raw (GJrand_bitgen d) = gjrand_next64 \<and> next_raw (JSF64_bitgen d) = jsf64_next64"
    by (simp add: GJrand_bitgen_def JSF64_bitgen_def gjrand_uint64_def jsf64_uint64_def fun_eq_iff)
  have cached: "has_uint32 st \<noteq> 0 \<longrightarrow>
        fst (gjrand_next32 (((\<lambda>x. snd (gjrand_next64 x)) ^^ n) st)) = uinteger st
      \<and> fst (jsf64_next32 (((\<lambda>x. snd (jsf64_next64 x)) ^^ n) st)) = uinteger st"
    by (simp add: a b g j)
  have chain: "has_uint32 st' = 0 \<longrightarrow>
        fst (gjrand_next32 (((\<lambda>x. snd (gjrand_next64 x)) ^^ n) (snd (gjrand_next32 st')))) =
          word_of_nat (unat (fst (gjrand_next64 st')) div 2 ^ 32)
      \<and> fst (jsf64_next32 (((\<lambda>x. snd (jsf64_next64 x)) ^^ n) (snd (jsf64_next32 st')))) =
          word_of_nat (unat (fst (jsf64_next64 st')) div 2 ^ 32)"
    by (simp add: a b g j c e)
  from frame raw cached chain show ?thesis
    by blast
qed

theorem next64_leaves_cache_witness:
  "has_uint32 (zero_state\<lparr>has_uint32 := 1, uinteger := 7\<rparr>) \<noteq> 0
   \<and> fst (gjrand_next32 (((\<lambda>x. snd (gjrand_next64 x)) ^^ 3)
          (zero_state\<lparr>has_uint32 := 1, uinteger := 7\<rparr>))) = 7
   \<and> fst (jsf64_next32 (((\<lambda>x. snd (jsf64_next64 x)) ^^ 3)
          (zero_state\<lparr>has_uint32 := 1, uinteger := 7\<rparr>))) = 7
   \<and> has_uint32 zero_state = 0
   \<and> fst (gjrand_next32 (((\<lambda>x. snd (gjrand_next64 x)) ^^ 3) (snd (gjrand_next32 zero_state)))) =
       word_of_nat (unat (fst (gjrand_next64 zero_state)) div 2 ^ 32)
   \<and> fst (jsf64_next32 (((\<lambda>x. snd (jsf64_next64 x)) ^^ 3) (snd (jsf64_next32 zero_state)))) =
       word_of_nat (unat (fst (jsf64_next64 zero_state)) div 2 ^ 32)"
proof -
  have h1: "has_uint32 (zero_state\<lparr>has_uint32 := 1, uinteger := 7\<rparr>) \<noteq> 0"
    by (simp add: zero_state_def)
  have h2: "has_uint32 zero_state = 0"
    by (simp add: zero_state_def)
  have u: "uinteger (zero_state\<lparr>has_uint32 := 1, uinteger := 7\<rparr>) = 7"
    by simp
  show ?thesis
    using h1 h2 u
      next64_leaves_cache [where st = "zero_state\<lparr>has_uint32 := 1, uinteger := 7\<rparr>"
        and st' = zero_state and n = 3]
    by (simp del: funpow.simps)
qed

text \<open>
  Claim C1, as amended. From a freshly seeded engine (\<open>__init__\<close> has just reset the
  cache), two calls of \<open>next32\<close> return first the low and then the high half-word of the
  value one call of \<open>next64\<close> returns from that state, and leave the same four state
  words as that call.
\<close>

theorem next32_twice_low_then_high:
  "fst (gjrand_next32 (GJrand_init self val)) =
     word_of_nat (unat (fst (gjrand_next64 (GJrand_init self val))) mod 2 ^ 32)
   \<and> fst (gjrand_next32 (snd (gjrand_next32 (GJrand_init self val)))) =
     word_of_nat (unat (fst (gjrand_next64 (GJrand_init self val))) div 2 ^ 32)
   \<and> s (snd (gjrand_next32 (snd (gjrand_next32 (GJrand_init self val))))) =
     s (snd (gjrand_next64 (GJrand_init self val)))
   \<and> fst (jsf64_next32 (JSF64_init self val)) =
     word_of_nat (unat (fst (jsf64_next64 (JSF64_init self val))) mod 2 ^ 32)
   \<and> fst (jsf64_next32 (snd (jsf64_next32 (JSF64_init self val)))) =
     word_of_nat (unat (fst (jsf64_next64 (JSF64_init self val))) div 2 ^ 32)
   \<and> s (snd (jsf64_next32 (snd (jsf64_next32 (JSF64_init self val))))) =
     s (snd (jsf64_next64 (JSF64_init self val)))"
proof -
  have g: "has_uint32 (GJrand_init self val) = 0"
    by (simp add: GJrand_init_def GJrand_reset_state_variables_def)
  have j: "has_uint32 (JSF64_init self val) = 0"
    by (simp add: JSF64_init_def JSF64_reset_state_variables_def)
  show ?thesis
    by (simp add: gjrand_next32_def gjrand_next64_def jsf64_next32_def jsf64_next64_def
        split_def low_half_word high_half_word g j)
qed

text \<open>
  Claim C1 as it is stated (first the high half-word) fails: seeded with the words
  1, 2, 3, the first \<open>next32\<close> of JSF64 returns 2707587716, the low half of
  17295028156245377668, whose high half is 4026812537; and that of GJrand returns
  37996681, the low half of 1998139174070503561, whose high half is 465228030.
\<close>

theorem next32_first_is_not_high_half:
  "fst (jsf64_next64 (JSF64_init zero_state seed_123)) = 17295028156245377668
   \<and> fst (jsf64_next32 (JSF64_init zero_state seed_123)) = 2707587716
   \<and> fst (jsf64_next32 (JSF64_init zero_state seed_123)) \<noteq>
      ucast (drop_bit 32 (fst (jsf64_next64 (JSF64_init zero_state seed_123))))
   \<and> fst (gjrand_next64 (GJrand_init zero_state seed_123)) = 1998139174070503561
   \<and> fst (gjrand_next32 (GJrand_init zero_state seed_123)) = 37996681
   \<and> fst (gjrand_next32 (GJrand_init zero_state seed_123)) \<noteq>
      ucast (drop_bit 32 (fst (gjrand_next64 (GJrand_init zero_state seed_123))))"
proof -
  have j64: "fst (jsf64_next64 (JSF64_init zero_state seed_123)) = 17295028156245377668"
    by code_simp
  have j32: "fst (jsf64_next32 (JSF64_init zero_state seed_123)) = 2707587716"
    by code_simp
  have g64: "fst (gjrand_next64 (GJrand_init zero_state seed_123)) = 1998139174070503561"
    by code_simp
  have g32: "fst (gjrand_next32 (GJrand_init zero_state seed_123)) = 37996681"
    by code_simp
  have "(2707587716 :: u32) \<noteq> ucast (drop_bit 32 (17295028156245377668 :: u64))"
    by simp
  moreover have "(37996681 :: u32) \<noteq> ucast (drop_bit 32 (1998139174070503561 :: u64))"
    by simp
  ultimately show ?thesis
    by (simp only: j64 j32 g64 g32 simp_thms)
qed

section \<open>Saving and restoring the state\<close>

text \<open>What the getters write, the conversions of the setters read back.\<close>

lemma upt4: "[0..<4] = [0, 1, 2, 3]"
  by (simp add: upt_rec eval_nat_numeral)

lemma as_int_sint: "as_int (PyInt (sint (h :: c_int))) = Inr h"
  using sint_ge [of h] sint_lt [of h] by (simp add: as_int_def)

lemma as_uint32_uint: "as_uint32 (PyInt (uint (u :: u32))) = Inr u"
  using uint_lt2p [of u] by (simp add: as_uint32_def)

lemma as_uint64_uint: "as_uint64 (PyInt (uint (u :: u64))) = Inr u"
  using uint_lt2p [of u] by (simp add: as_uint64_def)

lemma upt2: "[0..<2] = [0, 1]"
  by (simp add: upt_rec eval_nat_numeral)

lemma status_cells:
  "length (concat (map (\<lambda>i. map (f i) [0..<2]) [0..<n])) = 2 * n
   \<and> (\<forall>i<n. concat (map (\<lambda>i. map (f i) [0..<2]) [0..<n]) ! (2 * i) = f i 0
           \<and> concat (map (\<lambda>i. map (f i) [0..<2]) [0..<n]) ! (2 * i + 1) = f i 1)"
proof (induction n)
  case 0
  show ?case by simp
next
  case (Suc n)
  then show ?case
    by (auto simp add: upt2 nth_append less_Suc_eq)
qed

lemma set_status_cols_two:
  assumes "getitem_uint64 arr loc = Inr a" and "getitem_uint64 arr (loc + 1) = Inr b"
  shows "set_status_cols arr i [0..<2] loc self =
         (None, loc + 2, set_status_u i 1 b (set_status_u i 0 a self))"
  using assms by (simp add: upt2)

lemma set_status_rows_copy:
  assumes "2 * n \<le> length xs"
  shows "set_status_rows (PyArrU64 xs) [k..<n] (2 * k) self =
    (None, 2 * max k n,
     self\<lparr>state_dsfmt := (state_dsfmt self)
       \<lparr>status := (\<lambda>i j. if k \<le> i \<and> i < n \<and> j < 2 then xs ! (2 * i + j)
                          else status (state_dsfmt self) i j)\<rparr>\<rparr>)"
proof (induction "n - k" arbitrary: k self)
  case 0
  then have "(\<lambda>i j. if k \<le> i \<and> i < n \<and> j < 2 then xs ! (2 * i + j)
                 else status (state_dsfmt self) i j) = status (state_dsfmt self)"
    by (intro ext) auto
  with 0 show ?case by simp
next
  case (Suc d)
  then have kn: "k < n" and d: "d = n - Suc k" by simp_all
  have a: "getitem_uint64 (PyArrU64 xs) (2 * k) = Inr (xs ! (2 * k))"
    using kn assms by (simp add: getitem_uint64_def)
  have b: "getitem_uint64 (PyArrU64 xs) (2 * k + 1) = Inr (xs ! (2 * k + 1))"
    using kn assms by (simp add: getitem_uint64_def)
  have step: "set_status_rows (PyArrU64 xs) [k..<n] (2 * k) self =
      set_status_rows (PyArrU64 xs) [Suc k..<n] (2 * Suc k)
        (set_status_u k 1 (xs ! (2 * k + 1)) (set_status_u k 0 (xs ! (2 * k)) self))"
  proof -
    have l: "[k..<n] = k # [Suc k..<n]"
      using kn by (simp add: upt_conv_Cons)
    show ?thesis
      unfolding l
      by (simp only: set_status_rows.simps set_status_cols_two [OF a b] prod.case option.case)
        simp
  qed
  have m: "max (Suc k) n = max k n" using kn by simp
  show ?case
    unfolding step Suc.hyps(1) [OF d] m
    apply (simp add: set_status_u_def)
    apply (rule arg_cong [where f = "\<lambda>f. self\<lparr>state_dsfmt := state_dsfmt self\<lparr>status := f\<rparr>\<rparr>"])
    apply (rule ext, rule ext)
    subgoal for i j
      using kn by (cases "j = 0"; cases "j = Suc 0"; auto simp add: not_less_eq_eq set_status_u_def)
    done
qed

lemma set_buffered_copy:
  assumes "n \<le> length ds"
  shows "set_buffered (PyArrF64 ds) [k..<n] self =
    (None, self\<lparr>buffered_uniforms :=
       (\<lambda>i. if k \<le> i \<and> i < n then ds ! i else buffered_uniforms self i)\<rparr>)"
proof (induction "n - k" arbitrary: k self)
  case 0
  then have "(\<lambda>i. if k \<le> i \<and> i < n then ds ! i else buffered_uniforms self i) =
      buffered_uniforms self"
    by (intro ext) auto
  with 0 show ?case by simp
next
  case (Suc d)
  then have kn: "k < n" and d: "d = n - Suc k" by simp_all
  have a: "getitem_double (PyArrF64 ds) k = Inr (ds ! k)"
    using kn assms by (simp add: getitem_double_def)
  have step: "set_buffered (PyArrF64 ds) [k..<n] self =
      set_buffered (PyArrF64 ds) [Suc k..<n]
        (self\<lparr>buffered_uniforms := (buffered_uniforms self)(k := ds ! k)\<rparr>)"
    using kn by (simp add: upt_conv_Cons a)
  show ?case
    unfolding step Suc.hyps(1) [OF d]
    apply simp
    apply (rule arg_cong [where f = "\<lambda>f. self\<lparr>buffered_uniforms := f\<rparr>"])
    apply (rule ext)
    using kn apply (auto simp add: not_less_eq_eq)
    done
qed

lemma dsfmt_t_all: "r\<lparr>status := a, idx := b\<rparr> = \<lparr>status = a, idx = b\<rparr>"
  by (cases r) simp

lemma DSFMT_set_get:
  "DSFMT_state_set fresh (DSFMT_state_get self) =
    (None, fresh\<lparr>state_dsfmt :=
              \<lparr>status = (\<lambda>i j. if i < 192 \<and> j < 2 then status (state_dsfmt self) i j
                                else status (state_dsfmt fresh) i j),
               idx = idx (state_dsfmt self)\<rparr>,
            buffered_uniforms :=
              (\<lambda>i. if i < 382 then buffered_uniforms self i else buffered_uniforms fresh i),
            buffer_loc := buffer_loc self\<rparr>)"
proof -
  define xs where "xs = concat (map (\<lambda>i. map (\<lambda>j. status (state_dsfmt self) i j) [0..<2]) [0..<192])"
  define ds where "ds = map (buffered_uniforms self) [0..<382]"
  have len: "length xs = 2 * 192"
    and cells: "\<And>i. i < 192 \<Longrightarrow> xs ! (2 * i) = status (state_dsfmt self) i 0
                     \<and> xs ! (2 * i + 1) = status (state_dsfmt self) i 1"
    using status_cells [of "status (state_dsfmt self)" 192] by (simp_all add: xs_def)
  have rows: "set_status_rows (PyArrU64 xs) [0..<192] 0 fresh =
    (None, 384,
     fresh\<lparr>state_dsfmt := (state_dsfmt fresh)
       \<lparr>status := (\<lambda>i j. if i < 192 \<and> j < 2 then status (state_dsfmt self) i j
                          else status (state_dsfmt fresh) i j)\<rparr>\<rparr>)"
  proof -
    have "(\<lambda>i j. if 0 \<le> i \<and> i < 192 \<and> j < 2 then xs ! (2 * i + j)
                 else status (state_dsfmt fresh) i j) =
          (\<lambda>i j. if i < 192 \<and> j < 2 then status (state_dsfmt self) i j
                 else status (state_dsfmt fresh) i j)"
      apply (intro ext)
      subgoal for i j
        using cells [of i] less_2_cases [of j] by auto
      done
    then show ?thesis
      using set_status_rows_copy [of 192 xs 0 fresh] len by simp
  qed
  have buf: "set_buffered (PyArrF64 ds) [0..<382] st =
    (None, st\<lparr>buffered_uniforms :=
       (\<lambda>i. if i < 382 then buffered_uniforms self i else buffered_uniforms st i)\<rparr>)" for st
  proof -
    have "(\<lambda>i. if 0 \<le> i \<and> i < 382 then ds ! i else buffered_uniforms st i) =
          (\<lambda>i. if i < 382 then buffered_uniforms self i else buffered_uniforms st i)"
      by (intro ext) (simp add: ds_def)
    then show ?thesis
      using set_buffered_copy [of 382 ds 0 st] by (simp add: ds_def)
  qed
  have get: "DSFMT_state_get self =
    PyDict [(''bit_generator'', PyStr ''DSFMT''),
            (''state'', PyDict [(''state'', PyArrU64 xs),
                                (''idx'', PyInt (sint (idx (state_dsfmt self))))]),
            (''buffer_loc'', PyInt (sint (buffer_loc self))),
            (''buffered_uniforms'', PyArrF64 ds)]"
    by (simp add: DSFMT_state_get_def xs_def ds_def DSFMT_N_PLUS_1_def DSFMT_N64_def DSFMT_N_def)
  show ?thesis
    unfolding get
    by (simp add: DSFMT_state_set_def isinstance_dict_def dict_get_def getitem_def bind_err_def
        DSFMT_N_PLUS_1_def DSFMT_N64_def DSFMT_N_def rows buf as_int_sint Let_def dsfmt_t_all
        cong: if_cong)
qed

lemma DSFMT_roundtrip: "DSFMT_state_set self (DSFMT_state_get self) = (None, self)"
  by (simp add: DSFMT_set_get)

lemma PCG32_set_get: "PCG32_state_set fresh (PCG32_state_get self) = (None, self)"
  by (simp add: PCG32_state_set_def PCG32_state_get_def isinstance_dict_def dict_get_def
      getitem_def bind_err_def as_uint64_uint)


lemma set_buffered_frame: "state_dsfmt (snd (set_buffered bu is self)) = state_dsfmt self"
  by (induction "is" arbitrary: self) (auto split: sum.splits)

lemma set_buffered_short:
  assumes "length ds < n" and "k \<le> length ds"
  shows "fst (set_buffered (PyArrF64 ds) [k..<n] self) = Some IndexError"
  using assms(2)
proof (induction "length ds - k" arbitrary: k self)
  case 0
  then have k: "k = length ds" by simp
  then have l: "[k..<n] = k # [Suc k..<n]"
    using assms(1) by (simp add: upt_conv_Cons)
  show ?case
    unfolding l by (simp add: getitem_double_def k)
next
  case (Suc d)
  then have kl: "k < length ds" and d: "d = length ds - Suc k" by simp_all
  then have l: "[k..<n] = k # [Suc k..<n]"
    using assms(1) by (simp add: upt_conv_Cons)
  show ?case
    unfolding l using kl Suc.hyps(1) [OF d] by (simp add: getitem_double_def)
qed

lemma GJrand_roundtrip: "GJrand_state_set self (GJrand_state_get self) = (None, self)"
  by (simp add: GJrand_state_set_def GJrand_state_get_def gjrand_get_state_def gjrand_set_state_def
      isinstance_dict_def dict_get_def getitem_def bind_err_def np_assign4_def upt4
      as_int_sint as_uint32_uint)

lemma JSF64_roundtrip: "JSF64_state_set self (JSF64_state_get self) = (None, self)"
  by (simp add: JSF64_state_set_def JSF64_state_get_def jsf64_get_state_def jsf64_set_state_def
      isinstance_dict_def dict_get_def getitem_def bind_err_def np_assign4_def upt4
      as_int_sint as_uint32_uint)

lemma GJrand_set_error: "GJrand_state_set self v = (Some e, self') \<Longrightarrow> self' = self"
  by (auto simp add: GJrand_state_set_def split: if_splits sum.splits)

lemma JSF64_set_error: "JSF64_state_set self v = (Some e, self') \<Longrightarrow> self' = self"
  by (auto simp add: JSF64_state_set_def split: if_splits sum.splits)

text \<open>
  Claim C2 as it is stated fails for DSFMT, whose setter checks neither the index nor the
  length of the buffer. On a zero-filled engine, a dictionary with index 1000 is accepted
  without an exception and the index is stored; and a dictionary whose buffer has 381
  cells raises \<open>IndexError\<close> only after the status words and the index (here 5) have been
  overwritten.
\<close>

theorem dsfmt_restore_unchecked:
  "fst (DSFMT_state_set dsfmt_zero blob_idx_1000) = None
   \<and> sint (idx (state_dsfmt (snd (DSFMT_state_set dsfmt_zero blob_idx_1000)))) = 1000
   \<and> fst (DSFMT_state_set dsfmt_zero blob_short_buffer) = Some IndexError
   \<and> sint (idx (state_dsfmt (snd (DSFMT_state_set dsfmt_zero blob_short_buffer)))) = 5
   \<and> sint (idx (state_dsfmt dsfmt_zero)) = 0"
proof -
  obtain S where rows: "set_status_rows (PyArrU64 (replicate 384 0)) [0..<192] 0 st = (None, 384, S st)"
      and idxS: "idx (state_dsfmt (S st)) = idx (state_dsfmt st)" for st
  proof
    fix st
    show "set_status_rows (PyArrU64 (replicate 384 0)) [0..<192] 0 st =
      (None, 384, st\<lparr>state_dsfmt := (state_dsfmt st)
       \<lparr>status := (\<lambda>i j. if 0 \<le> i \<and> i < 192 \<and> j < 2 then replicate 384 0 ! (2 * i + j)
                          else status (state_dsfmt st) i j)\<rparr>\<rparr>)"
      using set_status_rows_copy [of 192 "replicate 384 0" 0 st] by simp
    show "idx (state_dsfmt (st\<lparr>state_dsfmt := (state_dsfmt st)
       \<lparr>status := (\<lambda>i j. if 0 \<le> i \<and> i < 192 \<and> j < 2 then replicate 384 0 ! (2 * i + j)
                          else status (state_dsfmt st) i j)\<rparr>\<rparr>)) = idx (state_dsfmt st)"
      by simp
  qed
  obtain B where buf: "set_buffered (PyArrF64 (replicate 382 (Double 0))) [0..<382] st = (None, B st)"
      and idxB: "state_dsfmt (B st) = state_dsfmt st" for st
  proof
    fix st
    show "set_buffered (PyArrF64 (replicate 382 (Double 0))) [0..<382] st =
      (None, st\<lparr>buffered_uniforms :=
         (\<lambda>i. if 0 \<le> i \<and> i < 382 then replicate 382 (Double 0) ! i else buffered_uniforms st i)\<rparr>)"
      using set_buffered_copy [of 382 "replicate 382 (Double 0)" 0 st] by simp
    show "state_dsfmt (st\<lparr>buffered_uniforms :=
         (\<lambda>i. if 0 \<le> i \<and> i < 382 then replicate 382 (Double 0) ! i else buffered_uniforms st i)\<rparr>)
       = state_dsfmt st"
      by simp
  qed
  have a: "DSFMT_state_set dsfmt_zero blob_idx_1000 =
      (None, (B ((S dsfmt_zero)\<lparr>state_dsfmt := (state_dsfmt (S dsfmt_zero))\<lparr>idx := 1000\<rparr>\<rparr>))
          \<lparr>buffer_loc := 382\<rparr>)"
    by (simp add: DSFMT_state_set_def blob_idx_1000_def isinstance_dict_def dict_get_def
        getitem_def bind_err_def as_int_def DSFMT_N_PLUS_1_def DSFMT_N64_def DSFMT_N_def rows buf
        Let_def)
  obtain r T where short: "set_buffered (PyArrF64 (replicate 381 (Double 0))) [0..<382]
      ((S dsfmt_zero)\<lparr>state_dsfmt := (state_dsfmt (S dsfmt_zero))\<lparr>idx := 5\<rparr>\<rparr>) = (r, T)"
    by (cases "set_buffered (PyArrF64 (replicate 381 (Double 0))) [0..<382]
      ((S dsfmt_zero)\<lparr>state_dsfmt := (state_dsfmt (S dsfmt_zero))\<lparr>idx := 5\<rparr>\<rparr>)") blast
  have r: "r = Some IndexError"
    using set_buffered_short [of "replicate 381 (Double 0)" 382 0
      "(S dsfmt_zero)\<lparr>state_dsfmt := (state_dsfmt (S dsfmt_zero))\<lparr>idx := 5\<rparr>\<rparr>"] short
    by simp
  have T: "state_dsfmt T = (state_dsfmt (S dsfmt_zero))\<lparr>idx := 5\<rparr>"
    using set_buffered_frame [of "PyArrF64 (replicate 381 (Double 0))" "[0..<382]"
      "(S dsfmt_zero)\<lparr>state_dsfmt := (state_dsfmt (S dsfmt_zero))\<lparr>idx := 5\<rparr>\<rparr>"] short
    by simp
  have b: "DSFMT_state_set dsfmt_zero blob_short_buffer = (Some IndexError, T)"
    by (simp add: DSFMT_state_set_def blob_short_buffer_def isinstance_dict_def dict_get_def
        getitem_def bind_err_def as_int_def DSFMT_N_PLUS_1_def DSFMT_N64_def DSFMT_N_def rows short r
        Let_def)
  show ?thesis
    unfolding a b by (simp add: idxB idxS T) (simp add: dsfmt_zero_def)
qed

text \<open>
  Claim C2, as amended. For each of the four engines, a value that is not a dictionary is
  rejected with \<open>TypeError\<close> and a dictionary whose \<open>bit_generator\<close> entry is not the name of
  the engine's class is rejected with \<open>ValueError\<close>, by the call itself and with the engine
  state as it was. For GJrand and JSF64, whatever exception the setter raises, the state
  is as it was.
\<close>

theorem restore_rejects_wrong_type_and_tag:
  "(\<not> isinstance_dict v \<longrightarrow>
      GJrand_state_set g v = (Some TypeError, g)
    \<and> JSF64_state_set j v = (Some TypeError, j)
    \<and> PCG32_state_set p v = (Some TypeError, p)
    \<and> DSFMT_state_set d v = (Some TypeError, d))
   \<and> (isinstance_dict w \<longrightarrow>
      (dict_get w ''bit_generator'' (PyStr []) \<noteq> PyStr ''GJrand'' \<longrightarrow>
         GJrand_state_set g w = (Some ValueError, g))
    \<and> (dict_get w ''bit_generator'' (PyStr []) \<noteq> PyStr ''JSF64'' \<longrightarrow>
         JSF64_state_set j w = (Some ValueError, j))
    \<and> (dict_get w ''bit_generator'' (PyStr []) \<noteq> PyStr ''PCG32'' \<longrightarrow>
         PCG32_state_set p w = (Some ValueError, p))
    \<and> (dict_get w ''bit_generator'' (PyStr []) \<noteq> PyStr ''DSFMT'' \<longrightarrow>
         DSFMT_state_set d w = (Some ValueError, d)))
   \<and> (fst (GJrand_state_set g x) \<noteq> None \<longrightarrow> snd (GJrand_state_set g x) = g)
   \<and> (fst (JSF64_state_set j x) \<noteq> None \<longrightarrow> snd (JSF64_state_set j x) = j)"
proof -
  have gj: "snd (GJrand_state_set g x) = g" if "fst (GJrand_state_set g x) \<noteq> None"
    using that GJrand_set_error [of g x] by (cases "GJrand_state_set g x") auto
  have js: "snd (JSF64_state_set j x) = j" if "fst (JSF64_state_set j x) \<noteq> None"
    using that JSF64_set_error [of j x] by (cases "JSF64_state_set j x") auto
  show ?thesis
    using gj js
    by (simp add: GJrand_state_set_def JSF64_state_set_def PCG32_state_set_def DSFMT_state_set_def)
qed

theorem restore_rejects_wrong_type_and_tag_witness:
  "\<not> isinstance_dict (PyInt 3)
   \<and> GJrand_state_set zero_state (PyInt 3) = (Some TypeError, zero_state)
   \<and> DSFMT_state_set dsfmt_zero (PyInt 3) = (Some TypeError, dsfmt_zero)
   \<and> isinstance_dict (PyDict [(''bit_generator'', PyStr ''MT19937'')])
   \<and> dict_get (PyDict [(''bit_generator'', PyStr ''MT19937'')]) ''bit_generator'' (PyStr []) \<noteq> PyStr ''GJrand''
   \<and> dict_get (PyDict [(''bit_generator'', PyStr ''MT19937'')]) ''bit_generator'' (PyStr []) \<noteq> PyStr ''JSF64''
   \<and> dict_get (PyDict [(''bit_generator'', PyStr ''MT19937'')]) ''bit_generator'' (PyStr []) \<noteq> PyStr ''PCG32''
   \<and> dict_get (PyDict [(''bit_generator'', PyStr ''MT19937'')]) ''bit_generator'' (PyStr []) \<noteq> PyStr ''DSFMT''
   \<and> GJrand_state_set zero_state (PyDict [(''bit_generator'', PyStr ''MT19937'')]) = (Some ValueError, zero_state)
   \<and> DSFMT_state_set dsfmt_zero (PyDict [(''bit_generator'', PyStr ''MT19937'')]) = (Some ValueError, dsfmt_zero)
   \<and> fst (GJrand_state_set zero_state (PyDict [(''bit_generator'', PyStr ''GJrand'')])) \<noteq> None
   \<and> snd (GJrand_state_set zero_state (PyDict [(''bit_generator'', PyStr ''GJrand'')])) = zero_state
   \<and> fst (JSF64_state_set zero_state (PyDict [(''bit_generator'', PyStr ''GJrand'')])) \<noteq> None
   \<and> snd (JSF64_state_set zero_state (PyDict [(''bit_generator'', PyStr ''GJrand'')])) = zero_state"
proof -
  have h1: "\<not> isinstance_dict (PyInt 3)"
    by (simp add: isinstance_dict_def)
  have h2: "isinstance_dict (PyDict [(''bit_generator'', PyStr ''MT19937'')])"
    by (simp add: isinstance_dict_def)
  have h3: "dict_get (PyDict [(''bit_generator'', PyStr ''MT19937'')]) ''bit_generator'' (PyStr []) = PyStr ''MT19937''"
    by (simp add: dict_get_def)
  have h4: "fst (GJrand_state_set zero_state (PyDict [(''bit_generator'', PyStr ''GJrand'')])) = Some KeyError"
    by (simp add: GJrand_state_set_def isinstance_dict_def dict_get_def getitem_def bind_err_def)
  have h5: "fst (JSF64_state_set zero_state (PyDict [(''bit_generator'', PyStr ''GJrand'')])) = Some ValueError"
    by (simp add: JSF64_state_set_def isinstance_dict_def dict_get_def)
  show ?thesis
    using h1 h2 h3 h4 h5
      restore_rejects_wrong_type_and_tag [where v = "PyInt 3"
        and w = "PyDict [(''bit_generator'', PyStr ''MT19937'')]"
        and x = "PyDict [(''bit_generator'', PyStr ''GJrand'')]"
        and g = zero_state and j = zero_state and d = dsfmt_zero]
    by simp
qed

text \<open>
  Claim C3. For each of the four engines and every state, setting the state to what the
  getter has just returned raises nothing and leaves the very same state; so any sequence
  of draws through the facade returns the same values, and ends in the same state, as
  without the round trip.
\<close>

theorem state_roundtrip:
  "GJrand_state_set g (GJrand_state_get g) = (None, g)
   \<and> JSF64_state_set j (JSF64_state_get j) = (None, j)
   \<and> PCG32_state_set p (PCG32_state_get p) = (None, p)
   \<and> DSFMT_state_set d (DSFMT_state_get d) = (None, d)
   \<and> draws (GJrand_bitgen f) ops (snd (GJrand_state_set g (GJrand_state_get g))) =
       draws (GJrand_bitgen f) ops g
   \<and> draws (JSF64_bitgen f) ops (snd (JSF64_state_set j (JSF64_state_get j))) =
       draws (JSF64_bitgen f) ops j
   \<and> draws (PCG32_bitgen pl) ops (snd (PCG32_state_set p (PCG32_state_get p))) =
       draws (PCG32_bitgen pl) ops p
   \<and> draws (DSFMT_bitgen dl) ops (snd (DSFMT_state_set d (DSFMT_state_get d))) =
       draws (DSFMT_bitgen dl) ops d"
  by (simp add: GJrand_roundtrip JSF64_roundtrip PCG32_set_get DSFMT_roundtrip)

section \<open>Jumping\<close>

lemma word_of_int_wrap: "(word_of_int (wrap_int k 64) :: u64) = word_of_int k"
  using wi_bintr [of 64 k, where ?'a = 64] by (simp add: wrap_int_def take_bit_eq_mod)

text \<open>
  Claim C5. \<open>PCG32.jumped(jumps)\<close> leaves \<open>self\<close> as it was and returns a new engine whose
  state is that of \<open>self\<close> advanced by \<open>0x9e3779b97f4a7c16 * jumps\<close>: what
  \<open>advance\<close> does to \<open>self\<close> with that product, which it reduces modulo \<open>2^64\<close> before
  it calls \<open>pcg32_advance_state\<close>. The state with which the new engine was constructed
  plays no part.
\<close>

theorem pcg32_jumped_is_advance:
  "PCG32_jumped lib fresh self jumps =
     (self, Inr (PCG32_advance lib self (0x9e3779b97f4a7c16 * jumps)))
   \<and> PCG32_advance lib self (0x9e3779b97f4a7c16 * jumps) =
       pcg32_advance_state lib self (0x9e3779b97f4a7c16 * word_of_int jumps)
   \<and> PCG32_jump_inplace lib self jumps = PCG32_advance lib self (0x9e3779b97f4a7c16 * jumps)"
  by (simp add: PCG32_jumped_def PCG32_set_get PCG32_jump_inplace_def PCG32_advance_def
      word_of_int_wrap Let_def)

text \<open>
  With the cursor at 382 a draw through the cache refills it first, so neither that draw
  nor any later one depends on the doubles the cache held.
\<close>

lemma dsfmt_next_buffer_fresh_cache:
  assumes "buffer_loc st = 382"
  shows "dsfmt_next_buffer fill (st\<lparr>buffered_uniforms := b\<rparr>) = dsfmt_next_buffer fill st"
  using assms by (simp add: dsfmt_next_buffer_def DSFMT_N64_def DSFMT_N_def split_def)

lemma dsfmt_next_buffers_fresh_cache:
  assumes "buffer_loc st = 382"
  shows "fst (dsfmt_next_buffers fill n (st\<lparr>buffered_uniforms := b\<rparr>)) =
         fst (dsfmt_next_buffers fill n st)"
proof (cases n)
  case 0
  then show ?thesis by simp
next
  case (Suc m)
  then show ?thesis
    by (simp add: dsfmt_next_buffer_fresh_cache [OF assms])
qed

text \<open>
  Claim C8. After \<open>jump_inplace\<close>, for any count and whatever \<open>dsfmt_jump\<close> does,
  \<open>buffer_loc\<close> is 382 (\<open>DSFMT_N64\<close>), the value \<open>_reset_state_variables\<close> stores.
  \<open>jumped\<close> leaves \<open>self\<close> alone; for a count that fits \<open>np.npy_intp\<close> it copies the state
  of \<open>self\<close> into the new engine, which cannot fail, and returns that engine after
  \<open>jump_inplace\<close>; for any other count it raises \<open>OverflowError\<close>. So every engine that
  \<open>jumped\<close> returns has \<open>buffer_loc\<close> 382. With the cursor there, the first draw
  through the cache returns cell 0 of the cache regenerated from the status array after
  the jump, and no sequence of draws returns anything that depends on the doubles cached
  before.
\<close>

theorem dsfmt_jump_empties_cache:
  "buffer_loc (DSFMT_jump_inplace lib self iter) = 382
   \<and> DSFMT_reset_state_variables self = self\<lparr>buffer_loc := 382\<rparr>
   \<and> DSFMT_jumped lib fresh self jumps =
       (self,
        if - (2 ^ 63) \<le> jumps \<and> jumps < 2 ^ 63
        then Inr (DSFMT_jump_inplace lib (snd (DSFMT_state_set fresh (DSFMT_state_get self))) jumps)
        else Inl OverflowError)
   \<and> fst (DSFMT_state_set fresh (DSFMT_state_get self)) = None
   \<and> (snd (DSFMT_jumped lib fresh self jumps) = Inr e \<longrightarrow> buffer_loc e = 382)
   \<and> fst (dsfmt_next_buffer fill (DSFMT_jump_inplace lib self iter)) =
       fst (fill (state_dsfmt (dsfmt_jump_loop lib 0 iter self))) 0
   \<and> dsfmt_next_buffer fill ((DSFMT_jump_inplace lib self iter)\<lparr>buffered_uniforms := b\<rparr>) =
       dsfmt_next_buffer fill (DSFMT_jump_inplace lib self iter)
   \<and> fst (dsfmt_next_buffers fill n ((DSFMT_jump_inplace lib self iter)\<lparr>buffered_uniforms := b\<rparr>)) =
       fst (dsfmt_next_buffers fill n (DSFMT_jump_inplace lib self iter))"
proof -
  have loc: "buffer_loc (DSFMT_jump_inplace lib x k) = 382" for x k
    by (simp add: DSFMT_jump_inplace_def DSFMT_reset_state_variables_def DSFMT_N64_def DSFMT_N_def)
  have reset: "DSFMT_reset_state_variables self = self\<lparr>buffer_loc := 382\<rparr>"
    by (simp add: DSFMT_reset_state_variables_def DSFMT_N64_def DSFMT_N_def)
  have jumped: "DSFMT_jumped lib fresh self jumps =
       (self,
        if - (2 ^ 63) \<le> jumps \<and> jumps < 2 ^ 63
        then Inr (DSFMT_jump_inplace lib (snd (DSFMT_state_set fresh (DSFMT_state_get self))) jumps)
        else Inl OverflowError)"
    by (simp add: DSFMT_jumped_def as_npy_intp_def DSFMT_set_get)
  have copy: "fst (DSFMT_state_set fresh (DSFMT_state_get self)) = None"
    by (simp add: DSFMT_set_get)
  have inr: "snd (DSFMT_jumped lib fresh self jumps) = Inr e \<longrightarrow> buffer_loc e = 382"
    unfolding jumped using loc by (auto split: if_splits)
  have first: "fst (dsfmt_next_buffer fill (DSFMT_jump_inplace lib self iter)) =
       fst (fill (state_dsfmt (dsfmt_jump_loop lib 0 iter self))) 0"
    by (simp add: DSFMT_jump_inplace_def DSFMT_reset_state_variables_def DSFMT_N64_def DSFMT_N_def
        dsfmt_next_buffer_def split_def)
  have one: "dsfmt_next_buffer fill ((DSFMT_jump_inplace lib self iter)\<lparr>buffered_uniforms := b\<rparr>) =
       dsfmt_next_buffer fill (DSFMT_jump_inplace lib self iter)"
    by (rule dsfmt_next_buffer_fresh_cache [OF loc])
  have many: "fst (dsfmt_next_buffers fill n ((DSFMT_jump_inplace lib self iter)\<lparr>buffered_uniforms := b\<rparr>)) =
       fst (dsfmt_next_buffers fill n (DSFMT_jump_inplace lib self iter))"
    by (rule dsfmt_next_buffers_fresh_cache [OF loc])
  from loc [of self iter] reset jumped copy inr first one many show ?thesis
    by blast
qed

theorem dsfmt_jump_empties_cache_witness:
  "snd (DSFMT_jumped dsfmt_lib_idle dsfmt_zero dsfmt_zero 3) =
     Inr (DSFMT_jump_inplace dsfmt_lib_idle dsfmt_zero 3)
   \<and> buffer_loc (DSFMT_jump_inplace dsfmt_lib_idle dsfmt_zero 3) = 382
   \<and> snd (DSFMT_jumped dsfmt_lib_idle dsfmt_zero dsfmt_zero (2 ^ 63)) = Inl OverflowError"
proof -
  have a: "snd (DSFMT_jumped dsfmt_lib_idle dsfmt_zero dsfmt_zero 3) =
     Inr (DSFMT_jump_inplace dsfmt_lib_idle dsfmt_zero 3)"
    by (simp add: DSFMT_jumped_def as_npy_intp_def DSFMT_roundtrip)
  have b: "snd (DSFMT_jumped dsfmt_lib_idle dsfmt_zero dsfmt_zero (2 ^ 63)) = Inl OverflowError"
    by (simp add: DSFMT_jumped_def as_npy_intp_def)
  show ?thesis
    using a b
      dsfmt_jump_empties_cache [where lib = dsfmt_lib_idle and fresh = dsfmt_zero
        and self = dsfmt_zero and jumps = 3
        and e = "DSFMT_jump_inplace dsfmt_lib_idle dsfmt_zero 3"]
    by simp
qed

section \<open>The raw output\<close>

text \<open>
  Claim C9. \<open>next_raw\<close> of PCG32 is \<open>pcg32_raw\<close>: one call of \<open>pcg32_next32\<close>, whose value
  it zero-extends to 64 bits and whose state it leaves; so its value is below \<open>2^32\<close>.
  \<open>next_raw\<close> of GJrand and of JSF64 is their \<open>next_uint64\<close>.
\<close>

theorem pcg32_raw_is_next32:
  "pcg32_raw lib st = (ucast (fst (pcg32_next32 lib st)), snd (pcg32_next32 lib st))
   \<and> unat (fst (pcg32_raw lib st)) = unat (fst (pcg32_next32 lib st))
   \<and> unat (fst (next_raw (PCG32_bitgen lib) st)) < 2 ^ 32
   \<and> next_raw (PCG32_bitgen lib) = pcg32_raw lib
   \<and> next_uint32 (PCG32_bitgen lib) = pcg32_next32 lib
   \<and> next_raw (GJrand_bitgen f) = next_uint64 (GJrand_bitgen f)
   \<and> next_uint64 (GJrand_bitgen f) = gjrand_next64
   \<and> next_raw (JSF64_bitgen f) = next_uint64 (JSF64_bitgen f)
   \<and> next_uint64 (JSF64_bitgen f) = jsf64_next64"
proof -
  have b: "unat (r :: u32) < 2 ^ 32" for r
    using unsigned_less [of r] by simp
  have u: "unat (ucast (r :: u32) :: u64) = unat r" for r
    using b [of r] by (simp add: unsigned_ucast_eq take_bit_nat_eq_self)
  show ?thesis
    using b [of "fst (pcg32_next32 lib st)"]
    by (simp add: pcg32_raw_def split_def PCG32_bitgen_def GJrand_bitgen_def JSF64_bitgen_def
        gjrand_uint64_def jsf64_uint64_def pcg32_uint32_def fun_eq_iff u)
qed


end
